theory Spec2Isabelle
  imports Complex_Main "HOL-Library.Multiset" "HOL-Library.Sublist" "HOL-Library.AList"
begin

section \<open>Python values shared by both engines\<close>

text \<open>
  The repository holds two implementations of the shotgun engine: the HTTP service
  (\<^verbatim>\<open>service/services/shotgun.py\<close> with its providers and \<^verbatim>\<open>upscaler.py\<close>) and the
  bot/CLI engine (\<^verbatim>\<open>cogs/masq/core.py\<close> with the view of \<^verbatim>\<open>cogs/masq/cog.py\<close>).
  Both are embedded. Where two classes of the source share a name, the one of
  \<^verbatim>\<open>core.py\<close> carries the prefix \<open>core_\<close>; a method whose name is used twice carries
  the name of its class; a leading underscore of a Python name is dropped. Fields that
  two records share are written qualified.
\<close>

type_synonym bytes = "nat list"

text \<open>
  The exceptions the handlers tell apart: \<^verbatim>\<open>asyncio.TimeoutError\<close>, and every other
  subclass of \<^verbatim>\<open>Exception\<close> with its \<^verbatim>\<open>str(e)\<close>.
\<close>

datatype exn = TimeoutError | Exception string

text \<open>Truthiness of an optional string: \<^verbatim>\<open>None\<close> and \<^verbatim>\<open>""\<close> are falsy.\<close>

definition truthy :: "string option \<Rightarrow> bool" where
  "truthy s = (case s of None \<Rightarrow> False | Some x \<Rightarrow> x \<noteq> [])"

text \<open>\<^verbatim>\<open>str(n)\<close> of an integer, as the f-strings of the error messages print it.\<close>

function str_nat :: "nat \<Rightarrow> string" where
  "str_nat n = (if n < 10 then [''0123456789'' ! n]
                else str_nat (n div 10) @ [''0123456789'' ! (n mod 10)])"
  by pat_completeness auto
termination
  by (relation "measure id") auto

declare str_nat.simps [simp del]

definition str_int :: "int \<Rightarrow> string" where
  "str_int i = (if i < 0 then CHR ''-'' # str_nat (nat (- i)) else str_nat (nat i))"

text \<open>
  \<^verbatim>\<open>base64.b64encode(b).decode()\<close>: three bytes (values below 256) become four
  characters, the last group padded with \<open>=\<close>.
\<close>

definition b64_alphabet :: string where
  "b64_alphabet = ''ABCDEFGHIJKLMNOPQRSTUVWXYZabcdefghijklmnopqrstuvwxyz0123456789+/''"

fun b64encode :: "bytes \<Rightarrow> string" where
  "b64encode [] = []"
| "b64encode [a] =
     [b64_alphabet ! (a div 4), b64_alphabet ! ((a mod 4) * 16), CHR ''='', CHR ''='']"
| "b64encode [a, b] =
     [b64_alphabet ! (a div 4), b64_alphabet ! ((a mod 4) * 16 + b div 16),
      b64_alphabet ! ((b mod 16) * 4), CHR ''='']"
| "b64encode (a # b # c # rest) =
     [b64_alphabet ! (a div 4), b64_alphabet ! ((a mod 4) * 16 + b div 16),
      b64_alphabet ! ((b mod 16) * 4 + c div 64), b64_alphabet ! (c mod 64)] @ b64encode rest"

section \<open>service/services/providers/base.py\<close>

datatype ProviderStatus = SUCCESS | FAILED | TIMEOUT | UNAVAILABLE

record ProviderResult =
  model_name :: string
  provider :: string
  status :: ProviderStatus
  image_base64 :: "string option"
  error :: "string option"
  processing_time_ms :: real
  cost :: real
  metadata :: "(string \<times> string option) list"
  timestamp :: real

text \<open>
  The dataclass defaults: every field but the first three has one; \<open>now\<close> is the value of
  \<^verbatim>\<open>datetime.utcnow()\<close> at construction.
\<close>

definition ProviderResult_init :: "string \<Rightarrow> string \<Rightarrow> ProviderStatus \<Rightarrow> real \<Rightarrow> ProviderResult" where
  "ProviderResult_init mn pv st now =
     \<lparr>model_name = mn, provider = pv, status = st, image_base64 = None, error = None,
      processing_time_ms = 0, cost = 0, metadata = [], timestamp = now\<rparr>"

definition ProviderResult_is_success :: "ProviderResult \<Rightarrow> bool" where
  "ProviderResult_is_success r = (status r = SUCCESS \<and> image_base64 r \<noteq> None)"

text \<open>The entries of \<^verbatim>\<open>config/models.yaml\<close> a provider reads, each key optional as \<^verbatim>\<open>dict.get\<close> has it.\<close>

record model_cfg =
  cfg_name :: "string option"
  cfg_provider :: "string option"
  cfg_model_id :: "string option"
  cfg_timeout :: "int option"
  cfg_cost_per_image :: "real option"
  cfg_enabled :: "bool option"
  cfg_priority :: "int option"

record provider_cfg =
  cfg_connection_type :: "string option"

record BaseProvider =
  model_config :: model_cfg
  provider_config :: provider_cfg
  bp_model_name :: string
  model_id :: string
  timeout :: int
  cost_per_image :: real

definition BaseProvider_init :: "model_cfg \<Rightarrow> provider_cfg \<Rightarrow> BaseProvider" where
  "BaseProvider_init mc pc =
     \<lparr>model_config = mc, provider_config = pc,
      bp_model_name = (case cfg_name mc of None \<Rightarrow> ''Unknown'' | Some n \<Rightarrow> n),
      model_id = (case cfg_model_id mc of None \<Rightarrow> [] | Some m \<Rightarrow> m),
      timeout = (case cfg_timeout mc of None \<Rightarrow> 30 | Some t \<Rightarrow> t),
      cost_per_image = (case cfg_cost_per_image mc of None \<Rightarrow> 0 | Some c \<Rightarrow> c)\<rparr>"

definition connection_type :: "BaseProvider \<Rightarrow> string" where
  "connection_type self =
     (case cfg_connection_type (provider_config self) of None \<Rightarrow> ''unknown'' | Some c \<Rightarrow> c)"

definition create_error_result :: "BaseProvider \<Rightarrow> string \<Rightarrow> ProviderStatus \<Rightarrow> real \<Rightarrow> ProviderResult" where
  "create_error_result self err st now =
     (ProviderResult_init (bp_model_name self) (connection_type self) st now)
       \<lparr>error := Some err, cost := 0\<rparr>"

section \<open>service/services/shotgun.py: ShotgunResult\<close>

record ShotgunResult =
  results :: "ProviderResult list"
  total_time_ms :: real
  total_cost :: real
  successful_count :: int
  failed_count :: int

definition ShotgunResult_init :: ShotgunResult where
  "ShotgunResult_init =
     \<lparr>results = [], total_time_ms = 0, total_cost = 0, successful_count = 0, failed_count = 0\<rparr>"

definition add_result :: "ShotgunResult \<Rightarrow> ProviderResult \<Rightarrow> ShotgunResult" where
  "add_result self result =
     (let s1 = self\<lparr>results := results self @ [result]\<rparr>;
          s2 = s1\<lparr>total_cost := total_cost s1 + cost result\<rparr>
      in if ProviderResult_is_success result
         then s2\<lparr>successful_count := successful_count s2 + 1\<rparr>
         else s2\<lparr>failed_count := failed_count s2 + 1\<rparr>)"

definition successful_results :: "ShotgunResult \<Rightarrow> ProviderResult list" where
  "successful_results self = [r \<leftarrow> results self. ProviderResult_is_success r]"

section \<open>The providers' external calls\<close>

text \<open>
  What one provider unit gets back from the outside world, one field per awaited call of
  the source; \<open>Inl\<close> is the exception the call raises. Wire formats are not modelled:
  each field is the outcome of the helper the provider awaits. \<open>elapsed_ms\<close> is the
  value of \<^verbatim>\<open>(time.time() - start_time) * 1000\<close>, \<open>utcnow\<close> the clock read by the
  dataclass default, and \<open>finish_s\<close> the seconds after dispatch at which the unit's
  coroutine is terminal.
\<close>

record runware_image =
  imageURL :: "string option"
  imageBase64 :: "string option"
  taskUUID :: "string option"

record io =
  elapsed_ms :: real
  utcnow :: real
  finish_s :: real
  rw_get_client :: "exn option"
  rw_imageBackgroundRemoval :: "exn + runware_image list"
  rw_http_get :: "exn + bytes"
  kie_upload_to_cdn :: "exn + string"
  kie_submit_task :: "exn + string"
  kie_poll_task :: "exn + string"
  kie_resultUrls :: "exn + string list"
  kie_download_result :: "exn + bytes"
  local_run_in_executor :: "exn + bytes"

section \<open>service/services/providers/runware\_provider.py\<close>

text \<open>The body of the \<^verbatim>\<open>try\<close> block: \<open>Inl\<close> is an exception leaving the block.\<close>

definition RunwareProvider_try :: "BaseProvider \<Rightarrow> io \<Rightarrow> exn + ProviderResult" where
  "RunwareProvider_try self w =
     (case rw_get_client w of
        Some e \<Rightarrow> Inl e
      | None \<Rightarrow>
         (case rw_imageBackgroundRemoval w of
            Inl e \<Rightarrow> Inl e
          | Inr [] \<Rightarrow> Inr (create_error_result self ''No results returned from Runware'' FAILED (utcnow w))
          | Inr (result # _) \<Rightarrow>
              if truthy (imageURL result) then
                (case rw_http_get w of
                   Inl e \<Rightarrow> Inl e
                 | Inr result_bytes \<Rightarrow>
                     Inr ((ProviderResult_init (bp_model_name self) ''runware'' SUCCESS (utcnow w))
                            \<lparr>image_base64 := Some (b64encode result_bytes),
                             processing_time_ms := elapsed_ms w,
                             cost := cost_per_image self,
                             metadata := [(''model_id'', Some (model_id self)),
                                          (''task_uuid'', taskUUID result)]\<rparr>))
              else if truthy (imageBase64 result) then
                Inr ((ProviderResult_init (bp_model_name self) ''runware'' SUCCESS (utcnow w))
                       \<lparr>image_base64 := imageBase64 result,
                        processing_time_ms := elapsed_ms w,
                        cost := cost_per_image self,
                        metadata := [(''model_id'', Some (model_id self)),
                                     (''task_uuid'', taskUUID result)]\<rparr>)
              else Inr (create_error_result self ''No image in Runware response'' FAILED (utcnow w))))"

definition RunwareProvider_remove_background :: "BaseProvider \<Rightarrow> string \<Rightarrow> io \<Rightarrow> ProviderResult" where
  "RunwareProvider_remove_background self api_key w =
     (if api_key = [] then
        create_error_result self ''Runware API key not configured'' UNAVAILABLE (utcnow w)
      else
        (case RunwareProvider_try self w of
           Inr r \<Rightarrow> r
         | Inl TimeoutError \<Rightarrow>
             create_error_result self
               (''Runware timeout after '' @ str_int (timeout self) @ ''s'') TIMEOUT (utcnow w)
         | Inl (Exception e) \<Rightarrow> create_error_result self e FAILED (utcnow w)))"

section \<open>service/services/providers/kie\_provider.py\<close>

definition KieProvider_try :: "BaseProvider \<Rightarrow> io \<Rightarrow> exn + ProviderResult" where
  "KieProvider_try self w =
     (case kie_upload_to_cdn w of
        Inl e \<Rightarrow> Inl e
      | Inr image_url \<Rightarrow>
         (case kie_submit_task w of
            Inl e \<Rightarrow> Inl e
          | Inr task_id \<Rightarrow>
             (case kie_poll_task w of
                Inl e \<Rightarrow> Inl e
              | Inr result \<Rightarrow>
                 (case kie_resultUrls w of
                    Inl e \<Rightarrow> Inl e
                  | Inr [] \<Rightarrow> Inl (Exception (''No resultUrls in Kie response: '' @ result))
                  | Inr (result_url # _) \<Rightarrow>
                     (case kie_download_result w of
                        Inl e \<Rightarrow> Inl e
                      | Inr result_bytes \<Rightarrow>
                          Inr ((ProviderResult_init (bp_model_name self) ''kie'' SUCCESS (utcnow w))
                                 \<lparr>image_base64 := Some (b64encode result_bytes),
                                  processing_time_ms := elapsed_ms w,
                                  cost := cost_per_image self,
                                  metadata := [(''model_id'', Some (model_id self)),
                                               (''task_id'', Some task_id)]\<rparr>))))))"

definition KieProvider_remove_background :: "BaseProvider \<Rightarrow> string \<Rightarrow> io \<Rightarrow> ProviderResult" where
  "KieProvider_remove_background self api_key w =
     (if api_key = [] then
        create_error_result self ''Kie.ai API key not configured'' UNAVAILABLE (utcnow w)
      else
        (case KieProvider_try self w of
           Inr r \<Rightarrow> r
         | Inl TimeoutError \<Rightarrow>
             create_error_result self
               (''Kie.ai timeout after '' @ str_int (timeout self) @ ''s'') TIMEOUT (utcnow w)
         | Inl (Exception e) \<Rightarrow> create_error_result self e FAILED (utcnow w)))"

section \<open>service/services/providers/local\_provider.py\<close>

definition LocalProvider_try :: "BaseProvider \<Rightarrow> io \<Rightarrow> exn + ProviderResult" where
  "LocalProvider_try self w =
     (case local_run_in_executor w of
        Inl e \<Rightarrow> Inl e
      | Inr result_bytes \<Rightarrow>
          Inr ((ProviderResult_init (bp_model_name self) ''local'' SUCCESS (utcnow w))
                 \<lparr>image_base64 := Some (b64encode result_bytes),
                  processing_time_ms := elapsed_ms w,
                  cost := 0,
                  metadata := [(''model_id'', Some (model_id self))]\<rparr>))"

definition LocalProvider_remove_background :: "BaseProvider \<Rightarrow> io \<Rightarrow> ProviderResult" where
  "LocalProvider_remove_background self w =
     (case LocalProvider_try self w of
        Inr r \<Rightarrow> r
      | Inl TimeoutError \<Rightarrow>
          create_error_result self
            (''Local model timeout after '' @ str_int (timeout self) @ ''s'') TIMEOUT (utcnow w)
      | Inl (Exception e) \<Rightarrow> create_error_result self e FAILED (utcnow w))"

section \<open>service/services/shotgun.py: ShotgunService\<close>

text \<open>The three subclasses of \<open>BaseProvider\<close> that \<^verbatim>\<open>_create_provider\<close> can build.\<close>

datatype Provider =
    RunwareProvider BaseProvider string
  | KieProvider BaseProvider string
  | LocalProvider BaseProvider

fun base :: "Provider \<Rightarrow> BaseProvider" where
  "base (RunwareProvider b _) = b"
| "base (KieProvider b _) = b"
| "base (LocalProvider b) = b"

text \<open>
  The abstract method \<^verbatim>\<open>provider.remove_background\<close>, as awaited by the caller:
  \<open>Inl\<close> would be an exception that leaves the provider.
\<close>

fun Provider_remove_background :: "Provider \<Rightarrow> io \<Rightarrow> exn + ProviderResult" where
  "Provider_remove_background (RunwareProvider b k) w = Inr (RunwareProvider_remove_background b k w)"
| "Provider_remove_background (KieProvider b k) w = Inr (KieProvider_remove_background b k w)"
| "Provider_remove_background (LocalProvider b) w = Inr (LocalProvider_remove_background b w)"

definition str_exn :: "exn \<Rightarrow> string" where
  "str_exn e = (case e of TimeoutError \<Rightarrow> [] | Exception m \<Rightarrow> m)"

text \<open>
  \<^verbatim>\<open>_run_single_model\<close>: \<open>awaited\<close> is the outcome of awaiting
  \<^verbatim>\<open>provider.remove_background(image_bytes)\<close>.
\<close>

definition run_single_model ::
  "string \<Rightarrow> Provider \<Rightarrow> (exn + ProviderResult) \<Rightarrow> real \<Rightarrow> ProviderResult" where
  "run_single_model name prov awaited now =
     (case awaited of
        Inr result \<Rightarrow> result
      | Inl e \<Rightarrow>
          (ProviderResult_init (bp_model_name (base prov)) (connection_type (base prov))
             FAILED now) \<lparr>error := Some (str_exn e)\<rparr>)"

record shotgun_cfg =
  cfg_parallel :: "bool option"
  cfg_total_timeout :: "real option"
  cfg_min_successful :: "int option"
  cfg_default_models :: "string list option"

record ModelConfig =
  background_removal_models :: "(string \<times> model_cfg) list"
  providers :: "(string \<times> provider_cfg) list"
  shotgun_config :: shotgun_cfg

record Settings =
  runware_api_key :: string
  kie_api_key :: string

record ShotgunService =
  settings :: Settings
  svc_model_config :: ModelConfig
  svc_providers :: "(string \<times> Provider) list"
  initialized :: bool

definition get_enabled_bg_models :: "ModelConfig \<Rightarrow> (string \<times> model_cfg) list" where
  "get_enabled_bg_models mc =
     [(name, config) \<leftarrow> background_removal_models mc.
        (case cfg_enabled config of None \<Rightarrow> True | Some b \<Rightarrow> b)]"

definition get_default_shotgun_models :: "ModelConfig \<Rightarrow> string list" where
  "get_default_shotgun_models mc =
     (case cfg_default_models (shotgun_config mc) of None \<Rightarrow> [] | Some ms \<Rightarrow> ms)"

definition get_provider_config :: "ModelConfig \<Rightarrow> string option \<Rightarrow> provider_cfg" where
  "get_provider_config mc provider_name =
     (case provider_name of
        None \<Rightarrow> \<lparr>cfg_connection_type = None\<rparr>
      | Some n \<Rightarrow> (case map_of (providers mc) n of
                     None \<Rightarrow> \<lparr>cfg_connection_type = None\<rparr>
                   | Some pc \<Rightarrow> pc))"

definition create_provider :: "ShotgunService \<Rightarrow> string \<Rightarrow> model_cfg \<Rightarrow> Provider option" where
  "create_provider self name mcfg =
     (let provider_name = cfg_provider mcfg;
          pcfg = get_provider_config (svc_model_config self) provider_name
      in if provider_name = Some ''runware'' then
           Some (RunwareProvider (BaseProvider_init mcfg pcfg) (runware_api_key (settings self)))
         else if provider_name = Some ''kie'' then
           Some (KieProvider (BaseProvider_init mcfg pcfg) (kie_api_key (settings self)))
         else if provider_name = Some ''local'' then
           Some (LocalProvider (BaseProvider_init mcfg pcfg))
         else None)"

fun initialize_loop ::
  "ShotgunService \<Rightarrow> (string \<times> model_cfg) list \<Rightarrow> (string \<times> Provider) list \<Rightarrow> (string \<times> Provider) list" where
  "initialize_loop self [] ps = ps"
| "initialize_loop self ((name, mcfg) # rest) ps =
     (case create_provider self name mcfg of
        None \<Rightarrow> initialize_loop self rest ps
      | Some p \<Rightarrow> initialize_loop self rest (AList.update name p ps))"

definition initialize :: "ShotgunService \<Rightarrow> ShotgunService" where
  "initialize self =
     (if initialized self then self
      else self\<lparr>svc_providers :=
                  initialize_loop self (get_enabled_bg_models (svc_model_config self)) (svc_providers self),
                initialized := True\<rparr>)"

text \<open>
  One dispatch round. \<open>unit_io name\<close> is what the unit of provider \<open>name\<close> meets,
  \<open>wall_ms\<close> the value of \<^verbatim>\<open>(time.time() - start_time) * 1000\<close> at the end.
\<close>

record exec_world =
  unit_io :: "string \<Rightarrow> io"
  wall_ms :: real

definition active_providers :: "ShotgunService \<Rightarrow> string list option \<Rightarrow> (string \<times> Provider) list" where
  "active_providers self models =
     (let models' = (case models of None \<Rightarrow> get_default_shotgun_models (svc_model_config self)
                                  | Some ms \<Rightarrow> ms)
      in [(name, provider) \<leftarrow> svc_providers (initialize self). name \<in> set models'])"

definition run_unit :: "exec_world \<Rightarrow> string \<times> Provider \<Rightarrow> ProviderResult" where
  "run_unit world np =
     run_single_model (fst np) (snd np)
       (Provider_remove_background (snd np) (unit_io world (fst np)))
       (utcnow (unit_io world (fst np)))"

definition parallel_mode :: "ShotgunService \<Rightarrow> bool" where
  "parallel_mode self =
     (case cfg_parallel (shotgun_config (svc_model_config self)) of None \<Rightarrow> True | Some b \<Rightarrow> b)"

definition total_timeout :: "ShotgunService \<Rightarrow> real" where
  "total_timeout self =
     (case cfg_total_timeout (shotgun_config (svc_model_config self)) of None \<Rightarrow> 90 | Some t \<Rightarrow> t)"

definition all_in_time :: "exec_world \<Rightarrow> real \<Rightarrow> (string \<times> Provider) list \<Rightarrow> bool" where
  "all_in_time world tmo active = list_all (\<lambda>np. finish_s (unit_io world (fst np)) \<le> tmo) active"

text \<open>
  \<^verbatim>\<open>asyncio.wait_for(asyncio.gather(*tasks, return_exceptions=True), timeout)\<close>: the
  gathered list, in the order of the tasks, when every unit is terminal within the
  timeout, and \<^verbatim>\<open>asyncio.TimeoutError\<close> otherwise.
\<close>

definition wait_for_gather ::
  "exec_world \<Rightarrow> real \<Rightarrow> (string \<times> Provider) list \<Rightarrow> exn + (exn + ProviderResult) list" where
  "wait_for_gather world tmo active =
     (if all_in_time world tmo active
      then Inr (map (\<lambda>np. Inr (run_unit world np)) active)
      else Inl TimeoutError)"

fun collect :: "ShotgunResult \<Rightarrow> (exn + ProviderResult) list \<Rightarrow> ShotgunResult" where
  "collect sr [] = sr"
| "collect sr (Inl e # rest) = collect sr rest"
| "collect sr (Inr r # rest) = collect (add_result sr r) rest"

definition execute :: "ShotgunService \<Rightarrow> string list option \<Rightarrow> exec_world \<Rightarrow> ShotgunResult" where
  "execute self models world =
     (let active = active_providers self models in
      if active = [] then ShotgunResult_init
      else
        (let shotgun_result =
           (if parallel_mode self then
              (case wait_for_gather world (total_timeout self) active of
                 Inr rs \<Rightarrow> collect ShotgunResult_init rs
               | Inl e \<Rightarrow> ShotgunResult_init)
            else foldl add_result ShotgunResult_init (map (run_unit world) active))
         in shotgun_result\<lparr>total_time_ms := wall_ms world\<rparr>))"

section \<open>cogs/masq/core.py: results and the model table\<close>

datatype ModelStatus = SUCCESS | FAILED | TIMEOUT | UNAVAILABLE

record ModelResult =
  model_id :: string
  model_name :: string
  provider :: string
  status :: ModelStatus
  image_bytes :: "bytes option"
  image_base64 :: "string option"
  error :: "string option"
  processing_time_ms :: real
  cost :: real

definition ModelResult_init :: "string \<Rightarrow> string \<Rightarrow> string \<Rightarrow> ModelStatus \<Rightarrow> ModelResult" where
  "ModelResult_init mid mn pv st =
     \<lparr>model_id = mid, model_name = mn, provider = pv, status = st, image_bytes = None,
      image_base64 = None, error = None, processing_time_ms = 0, cost = 0\<rparr>"

definition ModelResult_is_success :: "ModelResult \<Rightarrow> bool" where
  "ModelResult_is_success r = (status r = SUCCESS \<and> image_bytes r \<noteq> None)"

record core_ShotgunResult =
  results :: "ModelResult list"
  total_time_ms :: real
  timestamp :: real

definition successful :: "core_ShotgunResult \<Rightarrow> ModelResult list" where
  "successful self = [r \<leftarrow> results self. ModelResult_is_success r]"

definition core_total_cost :: "core_ShotgunResult \<Rightarrow> real" where
  "core_total_cost self = sum_list (map cost (results self))"

text \<open>The two counts that \<^verbatim>\<open>ShotgunResult.to_dict\<close> computes.\<close>

definition to_dict_successful_count :: "core_ShotgunResult \<Rightarrow> int" where
  "to_dict_successful_count self = int (length (successful self))"

definition to_dict_failed_count :: "core_ShotgunResult \<Rightarrow> int" where
  "to_dict_failed_count self = int (length (results self)) - int (length (successful self))"

record model_entry =
  m_name :: string
  m_provider :: string
  m_model_id :: string
  m_cost :: real
  m_priority :: int
  m_notes :: "string option"

definition MODELS :: "(string \<times> model_entry) list" where
  "MODELS =
     [(''runware_rmbg2'',
         \<lparr>m_name = ''RMBG 2.0'', m_provider = ''runware'', m_model_id = ''runware:110@1'',
          m_cost = 6 / 10000, m_priority = 1, m_notes = Some ''Best overall performer''\<rparr>),
      (''runware_birefnet_portrait'',
         \<lparr>m_name = ''BiRefNet Portrait'', m_provider = ''runware'', m_model_id = ''runware:112@10'',
          m_cost = 6 / 10000, m_priority = 2, m_notes = Some ''Good for portraits/people''\<rparr>),
      (''kie_recraft'',
         \<lparr>m_name = ''Recraft BG'', m_provider = ''kie'', m_model_id = ''recraft/remove-background'',
          m_cost = 5 / 1000, m_priority = 3, m_notes = None\<rparr>),
      (''local_birefnet'',
         \<lparr>m_name = ''BiRefNet General'', m_provider = ''local'', m_model_id = ''birefnet-general'',
          m_cost = 0, m_priority = 4, m_notes = None\<rparr>),
      (''local_isnet'',
         \<lparr>m_name = ''ISNet'', m_provider = ''local'', m_model_id = ''isnet-general-use'',
          m_cost = 0, m_priority = 5, m_notes = None\<rparr>)]"

definition DEFAULT_SHOTGUN_MODELS :: "string list" where
  "DEFAULT_SHOTGUN_MODELS =
     [''runware_rmbg2'', ''runware_birefnet_portrait'', ''kie_recraft'',
      ''local_birefnet'', ''local_isnet'']"

section \<open>cogs/masq/core.py: Masq, background removal\<close>

record Masq =
  runware_key :: "string option"
  kie_key :: "string option"
  timeout :: int

text \<open>\<^verbatim>\<open>_get_available_models\<close>: the requested ids that are in \<open>MODELS\<close> and have their key.\<close>

definition model_available :: "Masq \<Rightarrow> string \<Rightarrow> bool" where
  "model_available self mid =
     (case map_of MODELS mid of
        None \<Rightarrow> False
      | Some config \<Rightarrow>
          if m_provider config = ''runware'' \<and> \<not> truthy (runware_key self) then False
          else if m_provider config = ''kie'' \<and> \<not> truthy (kie_key self) then False
          else True)"

definition get_available_models :: "Masq \<Rightarrow> string list \<Rightarrow> string list" where
  "get_available_models self requested = [mid \<leftarrow> requested. model_available self mid]"

text \<open>
  What one task of \<^verbatim>\<open>_run_model\<close> meets: the outcome of awaiting the backend
  (\<^verbatim>\<open>_run_runware\<close>, \<^verbatim>\<open>_run_kie\<close> or \<^verbatim>\<open>_run_local\<close>: the bytes, or the exception raised),
  the elapsed milliseconds it reads, and the seconds after dispatch at which the task is
  terminal.
\<close>

record backend_call =
  call_outcome :: "exn + bytes"
  call_elapsed_ms :: real
  call_finish_s :: real

definition run_model_try :: "string \<Rightarrow> model_entry \<Rightarrow> backend_call \<Rightarrow> exn + ModelResult" where
  "run_model_try mid config c =
     (if m_provider config = ''runware'' \<or> m_provider config = ''kie''
         \<or> m_provider config = ''local'' then
        (case call_outcome c of
           Inl e \<Rightarrow> Inl e
         | Inr result_bytes \<Rightarrow>
             Inr ((ModelResult_init mid (m_name config) (m_provider config) SUCCESS)
                    \<lparr>image_bytes := Some result_bytes,
                     image_base64 := Some (b64encode result_bytes),
                     processing_time_ms := call_elapsed_ms c,
                     cost := m_cost config\<rparr>))
      else Inl (Exception (''Unknown provider: '' @ m_provider config)))"

text \<open>
  \<^verbatim>\<open>_run_model\<close>. The lookup \<^verbatim>\<open>MODELS[model_id]\<close> stands before the \<^verbatim>\<open>try\<close>: its
  \<^verbatim>\<open>KeyError\<close> is the one exception that leaves the function.
\<close>

definition run_model :: "Masq \<Rightarrow> string \<Rightarrow> backend_call \<Rightarrow> exn + ModelResult" where
  "run_model self mid c =
     (case map_of MODELS mid of
        None \<Rightarrow> Inl (Exception ([CHR 0x27] @ mid @ [CHR 0x27]))
      | Some config \<Rightarrow>
          (case run_model_try mid config c of
             Inr r \<Rightarrow> Inr r
           | Inl TimeoutError \<Rightarrow>
               Inr ((ModelResult_init mid (m_name config) (m_provider config) TIMEOUT)
                      \<lparr>error := Some (''Timeout after '' @ str_int (timeout self) @ ''s''),
                       processing_time_ms := call_elapsed_ms c\<rparr>)
           | Inl (Exception e) \<Rightarrow>
               Inr ((ModelResult_init mid (m_name config) (m_provider config) FAILED)
                      \<lparr>error := Some e, processing_time_ms := call_elapsed_ms c\<rparr>)))"

definition remove_background_single :: "Masq \<Rightarrow> string \<Rightarrow> backend_call \<Rightarrow> exn + ModelResult" where
  "remove_background_single self mid c =
     (if map_of MODELS mid = None then
        Inr ((ModelResult_init mid ''Unknown'' ''unknown'' FAILED)
               \<lparr>error := Some (''Unknown model: '' @ mid)\<rparr>)
      else run_model self mid c)"

text \<open>
  One round of \<^verbatim>\<open>Masq.remove_background\<close>. Task \<open>i\<close> is the one created for the
  \<open>i\<close>-th available model; \<open>task_call i\<close> is what it meets. \<^verbatim>\<open>asyncio.wait\<close> returns
  two Python sets, and a set is iterated in the order of its elements' hashes, which the
  source does not control: \<open>task_hash\<close> gives that order.
\<close>

record core_world =
  task_call :: "nat \<Rightarrow> backend_call"
  task_hash :: "nat \<Rightarrow> nat"
  core_wall_ms :: real
  core_utcnow :: real

definition create_tasks :: "string list \<Rightarrow> (nat \<times> string) list" where
  "create_tasks available = enumerate 0 available"

definition task_done :: "Masq \<Rightarrow> core_world \<Rightarrow> nat \<times> string \<Rightarrow> bool" where
  "task_done self world t = (call_finish_s (task_call world (fst t)) \<le> of_int (timeout self + 30))"

definition asyncio_wait ::
  "Masq \<Rightarrow> core_world \<Rightarrow> (nat \<times> string) list \<Rightarrow> (nat \<times> string) list \<times> (nat \<times> string) list" where
  "asyncio_wait self world tasks =
     (sort_key (\<lambda>t. task_hash world (fst t)) [t \<leftarrow> tasks. task_done self world t],
      sort_key (\<lambda>t. task_hash world (fst t)) [t \<leftarrow> tasks. \<not> task_done self world t])"

fun collect_done :: "Masq \<Rightarrow> core_world \<Rightarrow> (nat \<times> string) list \<Rightarrow> ModelResult list" where
  "collect_done self world [] = []"
| "collect_done self world (t # ts) =
     (case run_model self (snd t) (task_call world (fst t)) of
        Inl e \<Rightarrow> collect_done self world ts
      | Inr r \<Rightarrow> r # collect_done self world ts)"

text \<open>The models one round dispatches: the available ones among the requested or default ids.\<close>

definition dispatched :: "Masq \<Rightarrow> string list option \<Rightarrow> string list" where
  "dispatched self models =
     get_available_models self
       (case models of None \<Rightarrow> DEFAULT_SHOTGUN_MODELS | Some ms \<Rightarrow> ms)"

definition Masq_remove_background ::
  "Masq \<Rightarrow> string list option \<Rightarrow> core_world \<Rightarrow> core_ShotgunResult" where
  "Masq_remove_background self models world =
     (let available = dispatched self models
      in if available = [] then
           \<lparr>results = [], total_time_ms = 0, timestamp = core_utcnow world\<rparr>
         else
           (let (done, pending) = asyncio_wait self world (create_tasks available)
            in \<lparr>results = collect_done self world done,
                total_time_ms = core_wall_ms world,
                timestamp = core_utcnow world\<rparr>))"

section \<open>cogs/masq/cog.py: ModelSelectView\<close>

record Button =
  label :: string
  custom_id :: string
  disabled :: bool

record ModelSelectView =
  view_results :: "ModelResult list"
  user_id :: int
  selected_model :: "string option"
  children :: "Button list"
  stopped :: bool

text \<open>The loop of \<^verbatim>\<open>__init__\<close>: one button for each successful result, numbered by its index.\<close>

fun add_buttons :: "nat \<Rightarrow> ModelResult list \<Rightarrow> Button list" where
  "add_buttons i [] = []"
| "add_buttons i (result # rest) =
     (if ModelResult_is_success result then
        \<lparr>label = str_nat (i + 1) @ ''. '' @ model_name result,
         custom_id = ''select_'' @ model_id result,
         disabled = False\<rparr> # add_buttons (i + 1) rest
      else add_buttons (i + 1) rest)"

definition ModelSelectView_init :: "ModelResult list \<Rightarrow> int \<Rightarrow> ModelSelectView" where
  "ModelSelectView_init rs uid =
     \<lparr>view_results = rs, user_id = uid, selected_model = None,
      children = add_buttons 0 rs, stopped = False\<rparr>"

datatype response = send_message string bool | edit_message string

text \<open>
  The callback that \<^verbatim>\<open>_make_callback(model_id)\<close> returns, run for an interaction of
  user \<open>interaction_user\<close>; it gives the view afterwards and the response sent.
\<close>

definition callback :: "string \<Rightarrow> ModelSelectView \<Rightarrow> int \<Rightarrow> ModelSelectView \<times> response" where
  "callback mid self interaction_user =
     (if interaction_user \<noteq> user_id self then
        (self, send_message ''This isn't your result set.'' True)
      else
        (let name = (case map_of MODELS mid of None \<Rightarrow> mid | Some config \<Rightarrow> m_name config)
         in (self\<lparr>selected_model := Some mid,
                  children := map (\<lambda>item. item\<lparr>disabled := True\<rparr>) (children self),
                  stopped := True\<rparr>,
             edit_message (''Selected: **'' @ name @ ''**''))))"

section \<open>service/routers/background.py: log\_selection\<close>

record selection_logged =
  sel_status :: string
  sel_model_id :: string
  sel_job_id :: "string option"

text \<open>The handler writes a log line and answers; it reads no job and keeps no state.\<close>

definition log_selection :: "string \<Rightarrow> string option \<Rightarrow> string option \<Rightarrow> selection_logged" where
  "log_selection mid job_id notes =
     \<lparr>sel_status = ''logged'', sel_model_id = mid, sel_job_id = job_id\<rparr>"

section \<open>The Result Selector as the specification words it\<close>

text \<open>
  \<open>present_spec\<close> follows the specification: the successful outcomes, sorted by the
  provider's priority ascending, ties in the order of the results list (the sort is
  stable). \<open>model_priority\<close> reads the priority of \<open>MODELS\<close>, with the default 99 that
  \<^verbatim>\<open>list_models\<close> gives a model without one.
\<close>

definition present_spec :: "('a \<Rightarrow> int) \<Rightarrow> ('a \<Rightarrow> bool) \<Rightarrow> 'a list \<Rightarrow> 'a list" where
  "present_spec priority is_succ rs = sort_key priority [r \<leftarrow> rs. is_succ r]"

definition model_priority :: "ModelResult \<Rightarrow> int" where
  "model_priority r = (case map_of MODELS (model_id r) of None \<Rightarrow> 99 | Some config \<Rightarrow> m_priority config)"

text \<open>
  \<open>record_spec\<close> follows the specification: \<open>succ_ids job\<close> are the provider ids of the
  job's successful outcomes, \<open>selections\<close> the selections recorded so far. It fails with
  \<open>InvalidSelection\<close> for an id that is not among them and for a job that has a selection.
\<close>

datatype selection_error = InvalidSelection

definition record_spec ::
  "(string \<Rightarrow> string list) \<Rightarrow> (string \<rightharpoonup> string) \<Rightarrow> string \<Rightarrow> string
     \<Rightarrow> selection_error + (string \<times> string)" where
  "record_spec succ_ids selections job_id provider_id =
     (if provider_id \<notin> set (succ_ids job_id) then Inl InvalidSelection
      else if selections job_id \<noteq> None then Inl InvalidSelection
      else Inr (job_id, provider_id))"

section \<open>Images and the library calls of the Transform Engine\<close>

text \<open>
  A decoded image: its mode, its size (width, height) and its pixels in row order, each
  pixel the list of its band values (four for \<open>RGBA\<close>, three for \<open>RGB\<close>).
\<close>

record image =
  mode :: string
  img_size :: "int \<times> int"
  pixels :: "nat list list"

text \<open>
  The calls into Pillow and \<^verbatim>\<open>base64\<close> that the engine makes and this theory does not
  define: decoding (\<^verbatim>\<open>Image.open\<close>, which raises on bytes that are no image), the Lanczos
  resize (a floating-point kernel), the PNG encoder, the conversion to \<open>RGB\<close> of a mode
  without alpha, the mixing of one band value under a mask value strictly between 0 and
  255, and \<^verbatim>\<open>base64.b64decode\<close>.
\<close>

record library =
  Image_open :: "bytes \<Rightarrow> exn + image"
  resize_LANCZOS :: "image \<Rightarrow> int \<times> int \<Rightarrow> exn + image"
  save_PNG :: "image \<Rightarrow> bytes"
  convert_RGB :: "image \<Rightarrow> image"
  mix :: "nat \<Rightarrow> nat \<Rightarrow> nat \<Rightarrow> nat"
  b64decode :: "string \<Rightarrow> exn + bytes"

text \<open>\<^verbatim>\<open>Image.new(mode, size, color)\<close>: every pixel has the colour.\<close>

definition Image_new :: "string \<Rightarrow> int \<times> int \<Rightarrow> nat list \<Rightarrow> image" where
  "Image_new m sz color =
     \<lparr>mode = m, img_size = sz, pixels = replicate (nat (fst sz * snd sz)) color\<rparr>"

text \<open>
  \<^verbatim>\<open>img.split()[3]\<close>: the fourth band, the alpha of an \<open>RGBA\<close> image, whose pixels
  all have four bands.
\<close>

definition split3 :: "image \<Rightarrow> nat list" where
  "split3 img = map (\<lambda>p. case p of [r, g, b, a] \<Rightarrow> a | _ \<Rightarrow> 255) (pixels img)"

text \<open>
  \<^verbatim>\<open>dst.paste(src, mask=mask)\<close> as Pillow documents it: the source is converted to the
  mode of the destination (an \<open>RGBA\<close> source loses its fourth band); where the mask is 0
  the destination pixel stays, where it is 255 the source pixel is copied, and in between
  the two are mixed band by band.
\<close>

definition paste_pixel :: "library \<Rightarrow> nat list \<Rightarrow> nat list \<Rightarrow> nat \<Rightarrow> nat list" where
  "paste_pixel lib d s a =
     (if a = 0 then d
      else if a = 255 then take (length d) s
      else map2 (mix lib a) d (take (length d) s))"

definition paste :: "library \<Rightarrow> image \<Rightarrow> image \<Rightarrow> nat list \<Rightarrow> image" where
  "paste lib dst src msk =
     dst\<lparr>pixels := map (\<lambda>(d, s, a). paste_pixel lib d s a)
                      (zip (pixels dst) (zip (pixels src) msk))\<rparr>"

text \<open>
  The two statements both engines run for an \<open>RGBA\<close> image whose alpha is not kept:
  \<^verbatim>\<open>rgb = Image.new("RGB", img.size, (255, 255, 255))\<close> and then
  \<^verbatim>\<open>rgb.paste(img, mask=img.split()[3])\<close>.
\<close>

definition composite_on_white :: "library \<Rightarrow> image \<Rightarrow> image" where
  "composite_on_white lib img =
     paste lib (Image_new ''RGB'' (img_size img) [255, 255, 255]) img (split3 img)"

section \<open>service/services/upscaler.py\<close>

record UpscaleResult =
  success :: bool
  image_base64 :: "string option"
  original_size :: "int \<times> int"
  upscaled_size :: "int \<times> int"
  scale_factor :: real
  processing_time_ms :: real
  error :: "string option"
  has_alpha :: bool

definition UpscaleResult_init :: "bool \<Rightarrow> UpscaleResult" where
  "UpscaleResult_init ok =
     \<lparr>success = ok, image_base64 = None, original_size = (0, 0), upscaled_size = (0, 0),
      scale_factor = 1, processing_time_ms = 0, error = None, has_alpha = False\<rparr>"

record UpscalerService =
  default_scale :: int
  max_scale :: int

definition get_upscaler_service :: UpscalerService where
  "get_upscaler_service = \<lparr>default_scale = 4, max_scale = 8\<rparr>"

definition upscale_sync ::
  "library \<Rightarrow> bytes \<Rightarrow> int \<Rightarrow> bool \<Rightarrow> exn + (bytes \<times> (int \<times> int) \<times> (int \<times> int) \<times> bool)" where
  "upscale_sync lib img_bytes scale preserve_alpha =
     (case Image_open lib img_bytes of
        Inl e \<Rightarrow> Inl e
      | Inr input_image \<Rightarrow>
         (let original_size = img_size input_image;
              has_alpha = (mode input_image = ''RGBA'');
              new_size = (fst original_size * scale, snd original_size * scale)
          in if preserve_alpha \<and> has_alpha then
               (case resize_LANCZOS lib input_image new_size of
                  Inl e \<Rightarrow> Inl e
                | Inr output_image \<Rightarrow>
                    Inr (save_PNG lib output_image, original_size, new_size, has_alpha))
             else if mode input_image = ''RGBA'' then
               (let rgb_image = composite_on_white lib input_image
                in case resize_LANCZOS lib rgb_image new_size of
                     Inl e \<Rightarrow> Inl e
                   | Inr output_image \<Rightarrow>
                       Inr (save_PNG lib output_image, original_size, new_size, False))
             else
               (let input_image' = (if mode input_image \<noteq> ''RGB''
                                    then convert_RGB lib input_image else input_image)
                in case resize_LANCZOS lib input_image' new_size of
                     Inl e \<Rightarrow> Inl e
                   | Inr output_image \<Rightarrow>
                       Inr (save_PNG lib output_image, original_size, new_size, has_alpha))))"

text \<open>
  What one call of \<open>upscale\<close> meets: the seconds the executor job takes, the elapsed
  milliseconds read at the end, and the text Python prints for the timeout.
\<close>

record upscale_world =
  up_exec_s :: real
  up_elapsed_ms :: real
  up_timeout_repr :: string

definition upscale ::
  "library \<Rightarrow> UpscalerService \<Rightarrow> bytes \<Rightarrow> int option \<Rightarrow> bool \<Rightarrow> real \<Rightarrow> upscale_world
     \<Rightarrow> UpscaleResult" where
  "upscale lib self img_bytes scale preserve_alpha tmo world =
     (let scale1 = (case scale of None \<Rightarrow> default_scale self | Some sc \<Rightarrow> sc);
          scale2 = max 1 (min scale1 (max_scale self));
          awaited = (if tmo < up_exec_s world then Inl TimeoutError
                     else upscale_sync lib img_bytes scale2 preserve_alpha)
      in case awaited of
           Inr (result_bytes, orig, up_size, alpha) \<Rightarrow>
             (UpscaleResult_init True)
               \<lparr>image_base64 := Some (b64encode result_bytes),
                original_size := orig,
                upscaled_size := up_size,
                scale_factor := of_int scale2,
                processing_time_ms := up_elapsed_ms world,
                has_alpha := alpha\<rparr>
         | Inl TimeoutError \<Rightarrow>
             (UpscaleResult_init False)
               \<lparr>error := Some (''Upscaling timeout after '' @ up_timeout_repr world @ ''s'')\<rparr>
         | Inl (Exception e) \<Rightarrow> (UpscaleResult_init False)\<lparr>error := Some e\<rparr>)"

definition upscale_base64 ::
  "library \<Rightarrow> UpscalerService \<Rightarrow> string \<Rightarrow> int option \<Rightarrow> bool \<Rightarrow> real \<Rightarrow> upscale_world
     \<Rightarrow> UpscaleResult" where
  "upscale_base64 lib self b64 scale preserve_alpha tmo world =
     (case b64decode lib b64 of
        Inr decoded \<Rightarrow> upscale lib self decoded scale preserve_alpha tmo world
      | Inl e \<Rightarrow>
          (UpscaleResult_init False)\<lparr>error := Some (''Invalid base64 image: '' @ str_exn e)\<rparr>)"

section \<open>service/routers/upscale.py: the second step of process\_pipeline\<close>

record pipeline_item =
  item_model :: string
  item_provider :: string
  bg_removal :: ProviderResult
  upscaled :: "UpscaleResult option"

text \<open>
  The loop over \<^verbatim>\<open>bg_result.successful_results\<close>: one item for each, upscaled when
  \<^verbatim>\<open>upscale and r.image_base64\<close> is truthy.
\<close>

definition pipeline_items ::
  "library \<Rightarrow> ShotgunResult \<Rightarrow> bool \<Rightarrow> int \<Rightarrow> (ProviderResult \<Rightarrow> upscale_world) \<Rightarrow> pipeline_item list" where
  "pipeline_items lib bg_result do_upscale scale world =
     map (\<lambda>r. \<lparr>item_model = ProviderResult.model_name r,
               item_provider = ProviderResult.provider r,
               bg_removal = r,
               upscaled =
                 (case ProviderResult.image_base64 r of
                    None \<Rightarrow> None
                  | Some b64 \<Rightarrow>
                      if do_upscale \<and> b64 \<noteq> [] then
                        Some (upscale_base64 lib get_upscaler_service b64 (Some scale) True 60 (world r))
                      else None)\<rparr>)
         (successful_results bg_result)"

section \<open>cogs/masq/core.py: Masq.upscale\<close>

record core_UpscaleResult =
  success :: bool
  image_bytes :: "bytes option"
  image_base64 :: "string option"
  original_size :: "int \<times> int"
  upscaled_size :: "int \<times> int"
  scale_factor :: int
  processing_time_ms :: real
  has_alpha :: bool
  error :: "string option"

definition core_UpscaleResult_init :: "bool \<Rightarrow> core_UpscaleResult" where
  "core_UpscaleResult_init ok =
     \<lparr>success = ok, image_bytes = None, image_base64 = None, original_size = (0, 0),
      upscaled_size = (0, 0), scale_factor = 1, processing_time_ms = 0, has_alpha = False,
      error = None\<rparr>"

text \<open>The inner function \<^verbatim>\<open>_process\<close> of \<^verbatim>\<open>Masq.upscale\<close>.\<close>

definition core_process ::
  "library \<Rightarrow> bytes \<Rightarrow> int \<Rightarrow> bool \<Rightarrow> exn + (bytes \<times> (int \<times> int) \<times> (int \<times> int) \<times> bool)" where
  "core_process lib img_bytes scale preserve_alpha =
     (case Image_open lib img_bytes of
        Inl e \<Rightarrow> Inl e
      | Inr img \<Rightarrow>
         (let orig_size = img_size img;
              alpha = (mode img = ''RGBA'');
              new_size = (fst orig_size * scale, snd orig_size * scale)
          in if preserve_alpha \<and> alpha then
               (case resize_LANCZOS lib img new_size of
                  Inl e \<Rightarrow> Inl e
                | Inr result \<Rightarrow> Inr (save_PNG lib result, orig_size, new_size, alpha))
             else if mode img = ''RGBA'' then
               (let rgb = composite_on_white lib img
                in case resize_LANCZOS lib rgb new_size of
                     Inl e \<Rightarrow> Inl e
                   | Inr result \<Rightarrow> Inr (save_PNG lib result, orig_size, new_size, False))
             else
               (let img' = (if mode img \<noteq> ''RGB'' then convert_RGB lib img else img)
                in case resize_LANCZOS lib img' new_size of
                     Inl e \<Rightarrow> Inl e
                   | Inr result \<Rightarrow> Inr (save_PNG lib result, orig_size, new_size, alpha))))"

definition Masq_upscale ::
  "library \<Rightarrow> bytes \<Rightarrow> int \<Rightarrow> bool \<Rightarrow> upscale_world \<Rightarrow> core_UpscaleResult" where
  "Masq_upscale lib img_bytes scale preserve_alpha world =
     (let scale1 = max 1 (min scale 8);
          awaited = (if 60 < up_exec_s world then Inl TimeoutError
                     else core_process lib img_bytes scale1 preserve_alpha)
      in case awaited of
           Inr (result_bytes, orig, up_size, alpha) \<Rightarrow>
             (core_UpscaleResult_init True)
               \<lparr>image_bytes := Some result_bytes,
                image_base64 := Some (b64encode result_bytes),
                original_size := orig,
                upscaled_size := up_size,
                scale_factor := scale1,
                processing_time_ms := up_elapsed_ms world,
                has_alpha := alpha\<rparr>
         | Inl e \<Rightarrow>
             (core_UpscaleResult_init False)
               \<lparr>error := Some (str_exn e), processing_time_ms := up_elapsed_ms world\<rparr>)"

section \<open>Concrete inputs\<close>

text \<open>
  Inputs at which the theorems below are instantiated: a service with one paid and one
  local model, the worlds its units can meet, the bot engine with a Kie key, and a
  library whose resize only sets the size.
\<close>

definition io_ok :: io where
  "io_ok =
     \<lparr>elapsed_ms = 200, utcnow = 0, finish_s = 1,
      rw_get_client = None,
      rw_imageBackgroundRemoval =
        Inr [\<lparr>imageURL = Some ''https://im.runware.ai/a.png'', imageBase64 = None,
              taskUUID = Some ''t1''\<rparr>],
      rw_http_get = Inr [137, 80, 78],
      kie_upload_to_cdn = Inr ''https://cdn/a.png'',
      kie_submit_task = Inr ''task1'',
      kie_poll_task = Inr ''{state: success}'',
      kie_resultUrls = Inr [''https://cdn/r.png''],
      kie_download_result = Inr [137, 80, 78],
      local_run_in_executor = Inr [137, 80, 78]\<rparr>"

definition io_timeout :: io where
  "io_timeout =
     io_ok\<lparr>finish_s := 30,
            rw_imageBackgroundRemoval := Inl TimeoutError,
            kie_poll_task := Inl TimeoutError,
            local_run_in_executor := Inl TimeoutError\<rparr>"

definition io_error :: io where
  "io_error =
     io_ok\<lparr>rw_get_client := Some (Exception ''connection refused''),
            kie_upload_to_cdn := Inl (Exception ''connection refused''),
            local_run_in_executor := Inl (Exception ''cannot identify image file'')\<rparr>"

definition io_slow :: io where
  "io_slow = io_ok\<lparr>finish_s := 100\<rparr>"

definition cfg_rmbg2 :: model_cfg where
  "cfg_rmbg2 =
     \<lparr>cfg_name = Some ''RMBG 2.0'', cfg_provider = Some ''runware'',
      cfg_model_id = Some ''runware:110@1'', cfg_timeout = Some 30,
      cfg_cost_per_image = Some (6 / 10000), cfg_enabled = Some True, cfg_priority = Some 1\<rparr>"

definition cfg_isnet :: model_cfg where
  "cfg_isnet =
     \<lparr>cfg_name = Some ''ISNet'', cfg_provider = Some ''local'',
      cfg_model_id = Some ''isnet-general-use'', cfg_timeout = Some 120,
      cfg_cost_per_image = Some 0, cfg_enabled = Some True, cfg_priority = Some 5\<rparr>"

definition bp_rmbg2 :: BaseProvider where
  "bp_rmbg2 = BaseProvider_init cfg_rmbg2 \<lparr>cfg_connection_type = Some ''websocket''\<rparr>"

definition bp_isnet :: BaseProvider where
  "bp_isnet = BaseProvider_init cfg_isnet \<lparr>cfg_connection_type = Some ''local''\<rparr>"

definition svc0 :: ShotgunService where
  "svc0 =
     \<lparr>settings = \<lparr>runware_api_key = ''rw-key'', kie_api_key = []\<rparr>,
      svc_model_config =
        \<lparr>background_removal_models = [(''runware_rmbg2'', cfg_rmbg2), (''local_isnet'', cfg_isnet)],
         providers = [(''runware'', \<lparr>cfg_connection_type = Some ''websocket''\<rparr>),
                      (''local'', \<lparr>cfg_connection_type = Some ''local''\<rparr>)],
         shotgun_config =
           \<lparr>cfg_parallel = None, cfg_total_timeout = None, cfg_min_successful = None,
            cfg_default_models = Some [''runware_rmbg2'', ''local_isnet'']\<rparr>\<rparr>,
      svc_providers = [],
      initialized = False\<rparr>"

text \<open>The paid model fails with an exception while the local one succeeds.\<close>

definition world_one_fails :: exec_world where
  "world_one_fails =
     \<lparr>unit_io = (\<lambda>name. if name = ''runware_rmbg2'' then io_error else io_ok), wall_ms = 1000\<rparr>"

text \<open>The local model is still running when the 90 seconds of the batch are over.\<close>

definition world_one_slow :: exec_world where
  "world_one_slow =
     \<lparr>unit_io = (\<lambda>name. if name = ''local_isnet'' then io_slow else io_ok), wall_ms = 90000\<rparr>"

definition masq0 :: Masq where
  "masq0 = \<lparr>runware_key = None, kie_key = Some ''kie-key'', timeout = 120\<rparr>"

definition call_ok :: backend_call where
  "call_ok = \<lparr>call_outcome = Inr [137, 80, 78], call_elapsed_ms = 800, call_finish_s = 4 / 5\<rparr>"

definition call_fails :: backend_call where
  "call_fails =
     \<lparr>call_outcome = Inl (Exception ''Kie task failed: None''), call_elapsed_ms = 800,
      call_finish_s = 4 / 5\<rparr>"

text \<open>A Kie task whose polling outlasts the batch timeout of 120 + 30 seconds.\<close>

definition call_slow :: backend_call where
  "call_slow = \<lparr>call_outcome = Inr [137, 80, 78], call_elapsed_ms = 170000, call_finish_s = 170\<rparr>"

definition cworld_ok :: core_world where
  "cworld_ok =
     \<lparr>task_call = (\<lambda>i. if i = 0 then call_fails else call_ok), task_hash = (\<lambda>i. i),
      core_wall_ms = 800, core_utcnow = 0\<rparr>"

definition cworld_slow :: core_world where
  "cworld_slow =
     \<lparr>task_call = (\<lambda>i. if i = 0 then call_slow else call_ok), task_hash = (\<lambda>i. i),
      core_wall_ms = 150000, core_utcnow = 0\<rparr>"

text \<open>
  A two-pixel \<open>RGBA\<close> image, the first pixel fully transparent, the second opaque; a
  library that decodes every non-empty input to it; and two successful outcomes of the
  bot engine, the one of priority 5 before the one of priority 1.
\<close>

definition img_rgba :: image where
  "img_rgba = \<lparr>mode = ''RGBA'', img_size = (2, 1), pixels = [[10, 20, 30, 0], [40, 50, 60, 255]]\<rparr>"

definition lib0 :: library where
  "lib0 =
     \<lparr>Image_open = (\<lambda>b. if b = [] then Inl (Exception ''cannot identify image file'')
                         else Inr img_rgba),
      resize_LANCZOS = (\<lambda>img sz. if fst sz < 1 \<or> snd sz < 1
                                    then Inl (Exception ''height and width must be > 0'')
                                    else Inr (img\<lparr>img_size := sz\<rparr>)),
      save_PNG = (\<lambda>img. [137, 80, 78, 71]),
      convert_RGB = (\<lambda>img. img\<lparr>mode := ''RGB''\<rparr>),
      mix = (\<lambda>a d s. (s * a + d * (255 - a)) div 255),
      b64decode = (\<lambda>s. if s = [] then Inl (Exception ''Incorrect padding'')
                         else Inr [137, 80, 78])\<rparr>"

definition up_world0 :: upscale_world where
  "up_world0 = \<lparr>up_exec_s = 1 / 10, up_elapsed_ms = 100, up_timeout_repr = ''60.0''\<rparr>"

definition res_isnet :: ModelResult where
  "res_isnet =
     (ModelResult_init ''local_isnet'' ''ISNet'' ''local'' ModelStatus.SUCCESS)
       \<lparr>ModelResult.image_bytes := Some [137, 80, 78],
        ModelResult.image_base64 := Some ''iVBO'',
        ModelResult.processing_time_ms := 800\<rparr>"

definition res_rmbg2 :: ModelResult where
  "res_rmbg2 =
     (ModelResult_init ''runware_rmbg2'' ''RMBG 2.0'' ''runware'' ModelStatus.SUCCESS)
       \<lparr>ModelResult.image_bytes := Some [137, 80, 78],
        ModelResult.image_base64 := Some ''iVBO'',
        ModelResult.processing_time_ms := 1500,
        ModelResult.cost := 6 / 10000\<rparr>"

definition res_kie_failed :: ModelResult where
  "res_kie_failed =
     (ModelResult_init ''kie_recraft'' ''Recraft BG'' ''kie'' ModelStatus.FAILED)
       \<lparr>ModelResult.error := Some ''Kie task failed: None'',
        ModelResult.processing_time_ms := 900\<rparr>"

definition res_no_payload :: ProviderResult where
  "res_no_payload = ProviderResult_init ''RMBG 2.0'' ''runware'' ProviderStatus.SUCCESS 0"

text \<open>
  The round in which one provider fails late: the connection of the Runware unit is
  refused only after 100 seconds, past the 90 seconds of the batch, while the local unit
  has its image after one second. \<open>svc_sequential\<close> is the same service with
  \<^verbatim>\<open>parallel: false\<close>.
\<close>

definition io_error_late :: io where
  "io_error_late = io_error\<lparr>finish_s := 100\<rparr>"

definition world_late_failure :: exec_world where
  "world_late_failure =
     \<lparr>unit_io = (\<lambda>name. if name = ''runware_rmbg2'' then io_error_late else io_ok),
      wall_ms = 90000\<rparr>"

definition svc_sequential :: ShotgunService where
  "svc_sequential =
     svc0\<lparr>svc_model_config :=
            (svc_model_config svc0)
              \<lparr>shotgun_config := (shotgun_config (svc_model_config svc0))\<lparr>cfg_parallel := Some False\<rparr>\<rparr>\<rparr>"

text \<open>
  Pillow's Lanczos filter where two pixels of a row are resampled to four
  (\<^verbatim>\<open>Image.resize\<close> of a 2 by 1 image to 4 by 2). For 8-bit bands Pillow normalises the
  weights of each output column over the input columns and rounds them to 22-bit
  fixed-point integers (\<^verbatim>\<open>PRECISION_BITS = 32 - 8 - 2\<close>); \<open>lanczos_2_to_4\<close> gives the pair
  of weights of each of the four output columns, that is \<open>1.17548, -0.17548\<close>, then
  \<open>0.76713, 0.23287\<close>, and their mirror images. An output band is the sum of the
  weighted input bands plus one half, shifted down by 22 bits and clipped to a byte. The
  pass from one row to two has the single weight 1 and repeats the row.
\<close>

definition lanczos_2_to_4 :: "(int \<times> int) list" where
  "lanczos_2_to_4 =
     [(4930311, - 736007), (3217574, 976730), (976730, 3217574), (- 736007, 4930311)]"

definition clip8 :: "int \<Rightarrow> nat" where
  "clip8 v = (if v < 0 then 0 else if 255 < v then 255 else nat v)"

definition resample_band :: "int \<times> int \<Rightarrow> nat \<Rightarrow> nat \<Rightarrow> nat" where
  "resample_band k p0 p1 = clip8 ((2 ^ 21 + fst k * int p0 + snd k * int p1) div 2 ^ 22)"

definition lanczos_row_2_to_4 :: "nat list \<Rightarrow> nat list \<Rightarrow> nat list list" where
  "lanczos_row_2_to_4 p0 p1 = map (\<lambda>k. map2 (resample_band k) p0 p1) lanczos_2_to_4"

text \<open>
  The library \<open>lib0\<close> with that filter for an image of 2 by 1 resized to 4 by 2, and
  with an encoder that writes the bands of the pixels one after the other, so that the
  bytes returned show the pixels of the output.
\<close>

definition lib_lanczos :: library where
  "lib_lanczos =
     lib0\<lparr>resize_LANCZOS :=
            (\<lambda>img sz. case pixels img of
                         [p0, p1] \<Rightarrow>
                           if img_size img = (2, 1) \<and> sz = (4, 2) then
                             Inr (img\<lparr>img_size := sz,
                                      pixels := lanczos_row_2_to_4 p0 p1 @ lanczos_row_2_to_4 p0 p1\<rparr>)
                           else resize_LANCZOS lib0 img sz
                       | _ \<Rightarrow> resize_LANCZOS lib0 img sz),
          save_PNG := (\<lambda>img. concat (pixels img))\<rparr>"

section \<open>Properties\<close>


subsection \<open>Counting outcomes\<close>

lemma add_result_fields:
  "ShotgunResult.results (add_result s r) = ShotgunResult.results s @ [r]"
  "successful_count (add_result s r) =
     successful_count s + (if ProviderResult_is_success r then 1 else 0)"
  "failed_count (add_result s r) =
     failed_count s + (if ProviderResult_is_success r then 0 else 1)"
  "ShotgunResult.total_cost (add_result s r) = ShotgunResult.total_cost s + ProviderResult.cost r"
  by (simp_all add: add_result_def Let_def)

lemma foldl_add_result_results:
  "ShotgunResult.results (foldl add_result s rs) = ShotgunResult.results s @ rs"
  by (induction rs arbitrary: s) (simp_all add: add_result_fields)

lemma foldl_add_result_successful:
  "successful_count (foldl add_result s rs) =
     successful_count s + int (length [r \<leftarrow> rs. ProviderResult_is_success r])"
  by (induction rs arbitrary: s) (simp_all add: add_result_fields)

lemma foldl_add_result_failed:
  "failed_count (foldl add_result s rs) =
     failed_count s + int (length [r \<leftarrow> rs. \<not> ProviderResult_is_success r])"
  by (induction rs arbitrary: s) (simp_all add: add_result_fields)

lemma count_partition:
  "int (length [r \<leftarrow> rs. P r]) + int (length [r \<leftarrow> rs. \<not> P r]) = int (length rs)"
  by (induction rs) simp_all

lemma collect_all_Inr: "collect s (map (\<lambda>x. Inr (f x)) xs) = foldl add_result s (map f xs)"
  by (induction xs arbitrary: s) simp_all

lemma execute_eq:
  "execute self models world =
     (foldl add_result ShotgunResult_init
        (if parallel_mode self
            \<and> \<not> all_in_time world (total_timeout self) (active_providers self models)
         then [] else map (run_unit world) (active_providers self models)))
       \<lparr>ShotgunResult.total_time_ms :=
          (if active_providers self models = [] then 0 else wall_ms world)\<rparr>"
  by (simp add: execute_def Let_def wait_for_gather_def collect_all_Inr ShotgunResult_init_def)

lemma execute_results:
  "ShotgunResult.results (execute self models world) =
     (if parallel_mode self \<and> \<not> all_in_time world (total_timeout self) (active_providers self models)
      then [] else map (run_unit world) (active_providers self models))"
  by (simp add: execute_eq foldl_add_result_results ShotgunResult_init_def)

lemma execute_successful_count:
  "successful_count (execute self models world) =
     int (length [r \<leftarrow> ShotgunResult.results (execute self models world). ProviderResult_is_success r])"
  by (simp add: execute_eq foldl_add_result_results foldl_add_result_successful ShotgunResult_init_def)

lemma execute_failed_count:
  "failed_count (execute self models world) =
     int (length [r \<leftarrow> ShotgunResult.results (execute self models world). \<not> ProviderResult_is_success r])"
  by (simp add: execute_eq foldl_add_result_results foldl_add_result_failed ShotgunResult_init_def)

text \<open>
  C3. After any sequence of \<open>add_result\<close> calls on a fresh \<open>ShotgunResult\<close>, and so for
  the result of every dispatch round of \<open>execute\<close>, the successful count plus the failed
  count (every outcome that is not a success) equals the length of the results list. The
  two counts that the bot engine's \<^verbatim>\<open>to_dict\<close> derives add up to the length as well.
\<close>

theorem counts_sum_to_length:
  "successful_count (foldl add_result ShotgunResult_init rs)
     + failed_count (foldl add_result ShotgunResult_init rs)
   = int (length (ShotgunResult.results (foldl add_result ShotgunResult_init rs)))
   \<and> successful_count (execute self models world) + failed_count (execute self models world)
   = int (length (ShotgunResult.results (execute self models world)))
   \<and> to_dict_successful_count csr + to_dict_failed_count csr
   = int (length (core_ShotgunResult.results csr))"
proof -
  have "successful_count (foldl add_result ShotgunResult_init rs)
          + failed_count (foldl add_result ShotgunResult_init rs)
        = int (length (ShotgunResult.results (foldl add_result ShotgunResult_init rs)))"
    using count_partition [of ProviderResult_is_success rs]
    by (simp add: foldl_add_result_results foldl_add_result_successful
          foldl_add_result_failed ShotgunResult_init_def)
  moreover have "successful_count (execute self models world) + failed_count (execute self models world)
        = int (length (ShotgunResult.results (execute self models world)))"
    using count_partition [of ProviderResult_is_success "ShotgunResult.results (execute self models world)"]
    by (simp only: execute_successful_count execute_failed_count)
  moreover have "to_dict_successful_count csr + to_dict_failed_count csr
        = int (length (core_ShotgunResult.results csr))"
    by (simp add: to_dict_successful_count_def to_dict_failed_count_def)
  ultimately show ?thesis by simp
qed

lemma add_buttons_custom_ids:
  "map custom_id (add_buttons i ms) =
     map (\<lambda>m. ''select_'' @ model_id m) [m \<leftarrow> ms. ModelResult_is_success m]"
  by (induction ms arbitrary: i) simp_all

lemma pipeline_items_bg:
  "map bg_removal (pipeline_items lib sr up sc w) = successful_results sr"
  by (simp add: pipeline_items_def comp_def)

text \<open>
  C10. An outcome is successful exactly when its status is \<open>SUCCESS\<close> and its payload is
  not \<^verbatim>\<open>None\<close>. For every sequence of outcomes, \<open>successful_count\<close> counts those and
  \<open>failed_count\<close> all others; \<open>successful_results\<close> and \<open>successful\<close> list exactly
  those, so do the items that feed the second pipeline step and the buttons offered for
  selection; an outcome with status \<open>SUCCESS\<close> and no payload adds one to the failures.
\<close>

theorem success_needs_payload:
  "ProviderResult_is_success r
     = (ProviderResult.status r = ProviderStatus.SUCCESS \<and> ProviderResult.image_base64 r \<noteq> None)
   \<and> ModelResult_is_success m
     = (ModelResult.status m = ModelStatus.SUCCESS \<and> ModelResult.image_bytes m \<noteq> None)
   \<and> successful_count (foldl add_result ShotgunResult_init rs)
     = int (length [r \<leftarrow> rs. ProviderResult.status r = ProviderStatus.SUCCESS
                               \<and> ProviderResult.image_base64 r \<noteq> None])
   \<and> failed_count (foldl add_result ShotgunResult_init rs)
     = int (length [r \<leftarrow> rs. \<not> (ProviderResult.status r = ProviderStatus.SUCCESS
                                  \<and> ProviderResult.image_base64 r \<noteq> None)])
   \<and> successful_results sr
     = [r \<leftarrow> ShotgunResult.results sr. ProviderResult.status r = ProviderStatus.SUCCESS
                                        \<and> ProviderResult.image_base64 r \<noteq> None]
   \<and> map bg_removal (pipeline_items lib sr up sc w)
     = [r \<leftarrow> ShotgunResult.results sr. ProviderResult.status r = ProviderStatus.SUCCESS
                                        \<and> ProviderResult.image_base64 r \<noteq> None]
   \<and> successful csr
     = [m \<leftarrow> core_ShotgunResult.results csr. ModelResult.status m = ModelStatus.SUCCESS
                                             \<and> ModelResult.image_bytes m \<noteq> None]
   \<and> map custom_id (children (ModelSelectView_init ms uid))
     = map (\<lambda>m. ''select_'' @ model_id m)
         [m \<leftarrow> ms. ModelResult.status m = ModelStatus.SUCCESS \<and> ModelResult.image_bytes m \<noteq> None]
   \<and> (ProviderResult.status r = ProviderStatus.SUCCESS \<and> ProviderResult.image_base64 r = None
        \<longrightarrow> failed_count (add_result s r) = failed_count s + 1
          \<and> successful_count (add_result s r) = successful_count s)"
proof -
  have p: "ProviderResult_is_success = (\<lambda>r. ProviderResult.status r = ProviderStatus.SUCCESS
             \<and> ProviderResult.image_base64 r \<noteq> None)"
    by (rule ext) (simp add: ProviderResult_is_success_def)
  have q: "ModelResult_is_success = (\<lambda>m. ModelResult.status m = ModelStatus.SUCCESS
             \<and> ModelResult.image_bytes m \<noteq> None)"
    by (rule ext) (simp add: ModelResult_is_success_def)
  have c1: "successful_count (foldl add_result ShotgunResult_init rs)
     = int (length [r \<leftarrow> rs. ProviderResult_is_success r])"
    by (simp add: foldl_add_result_successful ShotgunResult_init_def)
  have c2: "failed_count (foldl add_result ShotgunResult_init rs)
     = int (length [r \<leftarrow> rs. \<not> ProviderResult_is_success r])"
    by (simp add: foldl_add_result_failed ShotgunResult_init_def)
  have c3: "map bg_removal (pipeline_items lib sr up sc w)
     = [r \<leftarrow> ShotgunResult.results sr. ProviderResult_is_success r]"
    by (simp add: pipeline_items_bg successful_results_def)
  have c4: "map custom_id (children (ModelSelectView_init ms uid))
     = map (\<lambda>m. ''select_'' @ model_id m) [m \<leftarrow> ms. ModelResult_is_success m]"
    by (simp add: ModelSelectView_init_def add_buttons_custom_ids)
  have c5: "ProviderResult.status r = ProviderStatus.SUCCESS \<and> ProviderResult.image_base64 r = None
        \<longrightarrow> failed_count (add_result s r) = failed_count s + 1
          \<and> successful_count (add_result s r) = successful_count s"
    by (simp add: add_result_fields ProviderResult_is_success_def)
  show ?thesis
    using c1 c2 c3 c4 c5
    by (simp add: successful_results_def successful_def p q)
qed


subsection \<open>The cost of an outcome\<close>

lemma runware_cost:
  "ProviderResult.status (RunwareProvider_remove_background b k w) \<noteq> ProviderStatus.SUCCESS
   \<Longrightarrow> ProviderResult.cost (RunwareProvider_remove_background b k w) = 0"
  by (auto simp: RunwareProvider_remove_background_def RunwareProvider_try_def
        create_error_result_def ProviderResult_init_def
        split: option.splits sum.splits list.splits exn.splits if_splits)

lemma kie_cost:
  "ProviderResult.status (KieProvider_remove_background b k w) \<noteq> ProviderStatus.SUCCESS
   \<Longrightarrow> ProviderResult.cost (KieProvider_remove_background b k w) = 0"
  by (auto simp: KieProvider_remove_background_def KieProvider_try_def
        create_error_result_def ProviderResult_init_def
        split: option.splits sum.splits list.splits exn.splits if_splits)

lemma local_cost:
  "ProviderResult.cost (LocalProvider_remove_background b w) = 0"
  by (auto simp: LocalProvider_remove_background_def LocalProvider_try_def
        create_error_result_def ProviderResult_init_def
        split: option.splits sum.splits list.splits exn.splits if_splits)

lemma run_unit_cost:
  "ProviderResult.status (run_unit world np) \<noteq> ProviderStatus.SUCCESS
   \<Longrightarrow> ProviderResult.cost (run_unit world np) = 0"
  by (cases "snd np") (simp_all add: run_unit_def run_single_model_def runware_cost kie_cost local_cost)

lemma execute_members:
  "r \<in> set (ShotgunResult.results (execute self models world))
   \<Longrightarrow> \<exists>np \<in> set (active_providers self models). r = run_unit world np"
  by (auto simp: execute_results split: if_splits)

lemma run_model_cost:
  "run_model masq mid c = Inr m \<Longrightarrow> ModelResult.status m \<noteq> ModelStatus.SUCCESS
   \<Longrightarrow> ModelResult.cost m = 0"
  by (auto simp: run_model_def run_model_try_def ModelResult_init_def
        split: option.splits sum.splits exn.splits if_splits)

lemma single_cost:
  "remove_background_single masq mid c = Inr m \<Longrightarrow> ModelResult.status m \<noteq> ModelStatus.SUCCESS
   \<Longrightarrow> ModelResult.cost m = 0"
  by (auto simp: remove_background_single_def ModelResult_init_def run_model_cost split: if_splits)

lemma collect_done_members:
  "m \<in> set (collect_done masq cw ts)
   \<Longrightarrow> \<exists>t \<in> set ts. run_model masq (snd t) (task_call cw (fst t)) = Inr m"
  by (induction ts) (auto split: sum.splits)

lemma Masq_results:
  "core_ShotgunResult.results (Masq_remove_background masq models cw) =
     collect_done masq cw (fst (asyncio_wait masq cw (create_tasks (dispatched masq models))))"
  by (simp add: Masq_remove_background_def Let_def asyncio_wait_def create_tasks_def
        split: prod.splits)

text \<open>
  C4. Every outcome a provider produces with a status other than \<open>SUCCESS\<close> has cost 0:
  the outcomes of the three providers of the service, the error result of the base class,
  the outcome \<^verbatim>\<open>_run_single_model\<close> builds from a caught exception, every outcome in
  the result of \<open>execute\<close>, and in the bot engine the outcomes of \<^verbatim>\<open>_run_model\<close>, of
  \<^verbatim>\<open>remove_background_single\<close> and of a whole round.
\<close>

theorem non_success_cost_zero:
  "(ProviderResult.status (RunwareProvider_remove_background b k w) \<noteq> ProviderStatus.SUCCESS
      \<longrightarrow> ProviderResult.cost (RunwareProvider_remove_background b k w) = 0)
   \<and> (ProviderResult.status (KieProvider_remove_background b k w) \<noteq> ProviderStatus.SUCCESS
      \<longrightarrow> ProviderResult.cost (KieProvider_remove_background b k w) = 0)
   \<and> (ProviderResult.status (LocalProvider_remove_background b w) \<noteq> ProviderStatus.SUCCESS
      \<longrightarrow> ProviderResult.cost (LocalProvider_remove_background b w) = 0)
   \<and> ProviderResult.cost (create_error_result b err st now) = 0
   \<and> ProviderResult.cost (run_single_model n p (Inl e) now) = 0
   \<and> (\<forall>r \<in> set (ShotgunResult.results (execute self models world)).
        ProviderResult.status r \<noteq> ProviderStatus.SUCCESS \<longrightarrow> ProviderResult.cost r = 0)
   \<and> (run_model masq mid c = Inr m \<and> ModelResult.status m \<noteq> ModelStatus.SUCCESS
      \<longrightarrow> ModelResult.cost m = 0)
   \<and> (remove_background_single masq mid c = Inr m \<and> ModelResult.status m \<noteq> ModelStatus.SUCCESS
      \<longrightarrow> ModelResult.cost m = 0)
   \<and> (\<forall>m \<in> set (core_ShotgunResult.results (Masq_remove_background masq cmodels cw)).
        ModelResult.status m \<noteq> ModelStatus.SUCCESS \<longrightarrow> ModelResult.cost m = 0)"
proof -
  have svc: "\<forall>r \<in> set (ShotgunResult.results (execute self models world)).
        ProviderResult.status r \<noteq> ProviderStatus.SUCCESS \<longrightarrow> ProviderResult.cost r = 0"
    using execute_members run_unit_cost by blast
  have core: "\<forall>m \<in> set (core_ShotgunResult.results (Masq_remove_background masq cmodels cw)).
        ModelResult.status m \<noteq> ModelStatus.SUCCESS \<longrightarrow> ModelResult.cost m = 0"
    unfolding Masq_results using collect_done_members run_model_cost by blast
  have err: "ProviderResult.cost (create_error_result b err st now) = 0"
    by (simp add: create_error_result_def)
  have caught: "ProviderResult.cost (run_single_model n p (Inl e) now) = 0"
    by (simp add: run_single_model_def ProviderResult_init_def)
  show ?thesis
    using svc core err caught runware_cost kie_cost local_cost run_model_cost single_cost
    by blast
qed

text \<open>
  The paid Runware model (0.0006 per image) whose call times out: status \<open>TIMEOUT\<close>, cost 0.
\<close>

theorem non_success_cost_zero_witness:
  "ProviderResult.status (RunwareProvider_remove_background bp_rmbg2 ''rw-key'' io_timeout)
     = ProviderStatus.TIMEOUT
   \<and> ProviderResult.cost (RunwareProvider_remove_background bp_rmbg2 ''rw-key'' io_timeout) = 0
   \<and> cost_per_image bp_rmbg2 = 6 / 10000"
proof -
  have st: "ProviderResult.status (RunwareProvider_remove_background bp_rmbg2 ''rw-key'' io_timeout)
     = ProviderStatus.TIMEOUT"
    by (simp add: RunwareProvider_remove_background_def RunwareProvider_try_def io_timeout_def
          io_ok_def create_error_result_def ProviderResult_init_def)
  have "ProviderResult.cost (RunwareProvider_remove_background bp_rmbg2 ''rw-key'' io_timeout) = 0"
    using non_success_cost_zero [where b = bp_rmbg2 and k = "''rw-key''" and w = io_timeout] st
    by simp
  then show ?thesis
    using st by (simp add: bp_rmbg2_def BaseProvider_init_def cfg_rmbg2_def)
qed


subsection \<open>Exceptions inside a unit\<close>

lemma available_in_MODELS:
  "model_available masq mid \<Longrightarrow> \<exists>config. map_of MODELS mid = Some config"
  by (auto simp: model_available_def split: option.splits)

lemma run_model_returns:
  "map_of MODELS mid = Some config \<Longrightarrow> \<exists>m. run_model masq mid c = Inr m"
  by (auto simp: run_model_def split: sum.splits exn.splits)

lemma run_model_catches:
  "map_of MODELS mid = Some config \<Longrightarrow> run_model_try mid config c = Inl e \<Longrightarrow>
   \<exists>m. run_model masq mid c = Inr m
      \<and> ModelResult.status m = (case e of TimeoutError \<Rightarrow> ModelStatus.TIMEOUT
                                         | Exception x \<Rightarrow> ModelStatus.FAILED)
      \<and> ModelResult.error m \<noteq> None"
  by (auto simp: run_model_def ModelResult_init_def split: exn.splits)

lemma task_ids:
  "t \<in> set (create_tasks xs) \<Longrightarrow> snd t \<in> set xs"
  by (cases t) (auto simp: create_tasks_def in_set_enumerate_eq)

lemma done_tasks_dispatched:
  "t \<in> set (fst (asyncio_wait masq cw (create_tasks (dispatched masq models))))
   \<Longrightarrow> model_available masq (snd t)"
  by (auto simp: asyncio_wait_def dispatched_def get_available_models_def dest!: task_ids)

lemma collect_done_all:
  "(\<And>t. t \<in> set ts \<Longrightarrow> \<exists>m. run_model masq (snd t) (task_call cw (fst t)) = Inr m)
   \<Longrightarrow> map Inr (collect_done masq cw ts)
       = map (\<lambda>t. run_model masq (snd t) (task_call cw (fst t))) ts"
proof (induction ts)
  case Nil
  then show ?case by simp
next
  case (Cons t ts)
  from Cons.prems [of t] obtain m where m: "run_model masq (snd t) (task_call cw (fst t)) = Inr m"
    by auto
  have "map Inr (collect_done masq cw ts)
       = map (\<lambda>t. run_model masq (snd t) (task_call cw (fst t))) ts"
    using Cons.IH Cons.prems by simp
  with m show ?case by simp
qed

lemma Masq_results_outcomes:
  "map Inr (core_ShotgunResult.results (Masq_remove_background masq models cw))
     = map (\<lambda>t. run_model masq (snd t) (task_call cw (fst t)))
         (fst (asyncio_wait masq cw (create_tasks (dispatched masq models))))"
  unfolding Masq_results
  by (rule collect_done_all) (blast dest: done_tasks_dispatched available_in_MODELS
        intro: run_model_returns)

lemma runware_catches:
  "k \<noteq> [] \<Longrightarrow> RunwareProvider_try b w = Inl e \<Longrightarrow>
   ProviderResult.status (RunwareProvider_remove_background b k w)
     = (case e of TimeoutError \<Rightarrow> ProviderStatus.TIMEOUT | Exception x \<Rightarrow> ProviderStatus.FAILED)"
  by (simp add: RunwareProvider_remove_background_def create_error_result_def
        ProviderResult_init_def split: exn.splits)

lemma kie_catches:
  "k \<noteq> [] \<Longrightarrow> KieProvider_try b w = Inl e \<Longrightarrow>
   ProviderResult.status (KieProvider_remove_background b k w)
     = (case e of TimeoutError \<Rightarrow> ProviderStatus.TIMEOUT | Exception x \<Rightarrow> ProviderStatus.FAILED)"
  by (simp add: KieProvider_remove_background_def create_error_result_def
        ProviderResult_init_def split: exn.splits)

lemma local_catches:
  "LocalProvider_try b w = Inl e \<Longrightarrow>
   ProviderResult.status (LocalProvider_remove_background b w)
     = (case e of TimeoutError \<Rightarrow> ProviderStatus.TIMEOUT | Exception x \<Rightarrow> ProviderStatus.FAILED)"
  by (simp add: LocalProvider_remove_background_def create_error_result_def
        ProviderResult_init_def split: exn.splits)

lemma provider_never_raises: "\<exists>r. Provider_remove_background p w = Inr r"
  by (cases p) simp_all

lemma run_unit_runware:
  "run_unit world (n, RunwareProvider b k) = RunwareProvider_remove_background b k (unit_io world n)"
  by (simp add: run_unit_def run_single_model_def)

lemma run_unit_kie:
  "run_unit world (n, KieProvider b k) = KieProvider_remove_background b k (unit_io world n)"
  by (simp add: run_unit_def run_single_model_def)

lemma run_unit_local:
  "run_unit world (n, LocalProvider b) = LocalProvider_remove_background b (unit_io world n)"
  by (simp add: run_unit_def run_single_model_def)

lemma runware_returns:
  "k \<noteq> [] \<Longrightarrow> RunwareProvider_try b w = Inr r \<Longrightarrow> RunwareProvider_remove_background b k w = r"
  by (simp add: RunwareProvider_remove_background_def)

lemma kie_returns:
  "k \<noteq> [] \<Longrightarrow> KieProvider_try b w = Inr r \<Longrightarrow> KieProvider_remove_background b k w = r"
  by (simp add: KieProvider_remove_background_def)

lemma local_returns:
  "LocalProvider_try b w = Inr r \<Longrightarrow> LocalProvider_remove_background b w = r"
  by (simp add: LocalProvider_remove_background_def)

text \<open>
  Exceptions inside a unit. An exception that leaves the \<^verbatim>\<open>try\<close> block of a provider
  becomes an outcome with status \<open>TIMEOUT\<close> (for \<^verbatim>\<open>asyncio.TimeoutError\<close>) or \<open>FAILED\<close>
  (for any other), the providers themselves never raise, and \<^verbatim>\<open>_run_single_model\<close>
  turns an exception of an awaited provider into a \<open>FAILED\<close> outcome. The outcome of a
  unit of the service is that conversion when the block raises and the result of the
  block when it returns, and a round that is not cut by the batch timeout records the
  outcome of every unit, each from that unit's own calls alone. In the bot engine an
  exception of the backend becomes a \<open>TIMEOUT\<close> or \<open>FAILED\<close> outcome, every dispatched
  model returns an outcome, and the round records the outcome of every finished task.
\<close>

theorem unit_exceptions_become_outcomes:
  "(k \<noteq> [] \<and> RunwareProvider_try b w = Inl e \<longrightarrow>
      ProviderResult.status (RunwareProvider_remove_background b k w)
        = (case e of TimeoutError \<Rightarrow> ProviderStatus.TIMEOUT | Exception x \<Rightarrow> ProviderStatus.FAILED))
   \<and> (k \<noteq> [] \<and> KieProvider_try b w = Inl e \<longrightarrow>
      ProviderResult.status (KieProvider_remove_background b k w)
        = (case e of TimeoutError \<Rightarrow> ProviderStatus.TIMEOUT | Exception x \<Rightarrow> ProviderStatus.FAILED))
   \<and> (LocalProvider_try b w = Inl e \<longrightarrow>
      ProviderResult.status (LocalProvider_remove_background b w)
        = (case e of TimeoutError \<Rightarrow> ProviderStatus.TIMEOUT | Exception x \<Rightarrow> ProviderStatus.FAILED))
   \<and> (\<exists>r. Provider_remove_background p w = Inr r)
   \<and> ProviderResult.status (run_single_model n p (Inl e) now) = ProviderStatus.FAILED
   \<and> (\<not> (parallel_mode self
           \<and> \<not> all_in_time world (total_timeout self) (active_providers self models))
      \<longrightarrow> ShotgunResult.results (execute self models world)
            = map (run_unit world) (active_providers self models))
   \<and> (map_of MODELS mid = Some config \<and> run_model_try mid config c = Inl e \<longrightarrow>
        (\<exists>m. run_model masq mid c = Inr m
           \<and> ModelResult.status m = (case e of TimeoutError \<Rightarrow> ModelStatus.TIMEOUT
                                              | Exception x \<Rightarrow> ModelStatus.FAILED)
           \<and> ModelResult.error m \<noteq> None))
   \<and> (model_available masq mid \<longrightarrow> (\<exists>m. run_model masq mid c = Inr m))
   \<and> map Inr (core_ShotgunResult.results (Masq_remove_background masq cmodels cw))
        = map (\<lambda>t. run_model masq (snd t) (task_call cw (fst t)))
            (fst (asyncio_wait masq cw (create_tasks (dispatched masq cmodels))))
   \<and> (k \<noteq> [] \<and> RunwareProvider_try b (unit_io world n) = Inl e \<longrightarrow>
      ProviderResult.status (run_unit world (n, RunwareProvider b k))
        = (case e of TimeoutError \<Rightarrow> ProviderStatus.TIMEOUT | Exception x \<Rightarrow> ProviderStatus.FAILED))
   \<and> (k \<noteq> [] \<and> KieProvider_try b (unit_io world n) = Inl e \<longrightarrow>
      ProviderResult.status (run_unit world (n, KieProvider b k))
        = (case e of TimeoutError \<Rightarrow> ProviderStatus.TIMEOUT | Exception x \<Rightarrow> ProviderStatus.FAILED))
   \<and> (LocalProvider_try b (unit_io world n) = Inl e \<longrightarrow>
      ProviderResult.status (run_unit world (n, LocalProvider b))
        = (case e of TimeoutError \<Rightarrow> ProviderStatus.TIMEOUT | Exception x \<Rightarrow> ProviderStatus.FAILED))
   \<and> (k \<noteq> [] \<and> RunwareProvider_try b (unit_io world n) = Inr res \<longrightarrow>
      run_unit world (n, RunwareProvider b k) = res)
   \<and> (k \<noteq> [] \<and> KieProvider_try b (unit_io world n) = Inr res \<longrightarrow>
      run_unit world (n, KieProvider b k) = res)
   \<and> (LocalProvider_try b (unit_io world n) = Inr res \<longrightarrow>
      run_unit world (n, LocalProvider b) = res)"
proof -
  have caught: "ProviderResult.status (run_single_model n p (Inl e) now) = ProviderStatus.FAILED"
    by (simp add: run_single_model_def ProviderResult_init_def)
  have batch: "\<not> (parallel_mode self
           \<and> \<not> all_in_time world (total_timeout self) (active_providers self models))
      \<longrightarrow> ShotgunResult.results (execute self models world)
            = map (run_unit world) (active_providers self models)"
    by (simp add: execute_results)
  have avail: "model_available masq mid \<longrightarrow> (\<exists>m. run_model masq mid c = Inr m)"
    using available_in_MODELS run_model_returns by blast
  have u1: "k \<noteq> [] \<and> RunwareProvider_try b (unit_io world n) = Inl e \<longrightarrow>
      ProviderResult.status (run_unit world (n, RunwareProvider b k))
        = (case e of TimeoutError \<Rightarrow> ProviderStatus.TIMEOUT | Exception x \<Rightarrow> ProviderStatus.FAILED)"
    using runware_catches [of k b "unit_io world n" e] by (simp add: run_unit_runware)
  have u2: "k \<noteq> [] \<and> KieProvider_try b (unit_io world n) = Inl e \<longrightarrow>
      ProviderResult.status (run_unit world (n, KieProvider b k))
        = (case e of TimeoutError \<Rightarrow> ProviderStatus.TIMEOUT | Exception x \<Rightarrow> ProviderStatus.FAILED)"
    using kie_catches [of k b "unit_io world n" e] by (simp add: run_unit_kie)
  have u3: "LocalProvider_try b (unit_io world n) = Inl e \<longrightarrow>
      ProviderResult.status (run_unit world (n, LocalProvider b))
        = (case e of TimeoutError \<Rightarrow> ProviderStatus.TIMEOUT | Exception x \<Rightarrow> ProviderStatus.FAILED)"
    using local_catches [of b "unit_io world n" e] by (simp add: run_unit_local)
  have v1: "k \<noteq> [] \<and> RunwareProvider_try b (unit_io world n) = Inr res \<longrightarrow>
      run_unit world (n, RunwareProvider b k) = res"
    using runware_returns [of k b "unit_io world n" res] by (simp add: run_unit_runware)
  have v2: "k \<noteq> [] \<and> KieProvider_try b (unit_io world n) = Inr res \<longrightarrow>
      run_unit world (n, KieProvider b k) = res"
    using kie_returns [of k b "unit_io world n" res] by (simp add: run_unit_kie)
  have v3: "LocalProvider_try b (unit_io world n) = Inr res \<longrightarrow>
      run_unit world (n, LocalProvider b) = res"
    using local_returns [of b "unit_io world n" res] by (simp add: run_unit_local)
  have old: "(k \<noteq> [] \<and> RunwareProvider_try b w = Inl e \<longrightarrow>
      ProviderResult.status (RunwareProvider_remove_background b k w)
        = (case e of TimeoutError \<Rightarrow> ProviderStatus.TIMEOUT | Exception x \<Rightarrow> ProviderStatus.FAILED))
   \<and> (k \<noteq> [] \<and> KieProvider_try b w = Inl e \<longrightarrow>
      ProviderResult.status (KieProvider_remove_background b k w)
        = (case e of TimeoutError \<Rightarrow> ProviderStatus.TIMEOUT | Exception x \<Rightarrow> ProviderStatus.FAILED))
   \<and> (LocalProvider_try b w = Inl e \<longrightarrow>
      ProviderResult.status (LocalProvider_remove_background b w)
        = (case e of TimeoutError \<Rightarrow> ProviderStatus.TIMEOUT | Exception x \<Rightarrow> ProviderStatus.FAILED))
   \<and> (\<exists>r. Provider_remove_background p w = Inr r)
   \<and> (map_of MODELS mid = Some config \<and> run_model_try mid config c = Inl e \<longrightarrow>
        (\<exists>m. run_model masq mid c = Inr m
           \<and> ModelResult.status m = (case e of TimeoutError \<Rightarrow> ModelStatus.TIMEOUT
                                              | Exception x \<Rightarrow> ModelStatus.FAILED)
           \<and> ModelResult.error m \<noteq> None))"
    using runware_catches [of k b w e] kie_catches [of k b w e]
      local_catches [of b w e] provider_never_raises [of p w]
      run_model_catches [of mid config c e masq]
    by blast
  from old caught batch avail Masq_results_outcomes [of masq cmodels cw] u1 u2 u3 v1 v2 v3
  show ?thesis by (intro conjI) blast+
qed

lemma active_svc0:
  "active_providers svc0 None =
     [(''runware_rmbg2'', RunwareProvider bp_rmbg2 ''rw-key''), (''local_isnet'', LocalProvider bp_isnet)]"
  by (simp add: active_providers_def svc0_def initialize_def get_enabled_bg_models_def
        get_default_shotgun_models_def create_provider_def get_provider_config_def Let_def
        cfg_rmbg2_def cfg_isnet_def bp_rmbg2_def bp_isnet_def)

lemma svc0_mode: "parallel_mode svc0" "total_timeout svc0 = 90"
  by (simp_all add: parallel_mode_def total_timeout_def svc0_def)

lemma try_io_error: "RunwareProvider_try bp_rmbg2 io_error = Inl (Exception ''connection refused'')"
  by (simp add: RunwareProvider_try_def io_error_def io_ok_def)

lemma statuses_one_fails:
  "map ProviderResult.status (map (run_unit world_one_fails) (active_providers svc0 None))
     = [ProviderStatus.FAILED, ProviderStatus.SUCCESS]"
  by (simp add: active_svc0 run_unit_def run_single_model_def world_one_fails_def
        RunwareProvider_remove_background_def try_io_error create_error_result_def
        ProviderResult_init_def LocalProvider_remove_background_def LocalProvider_try_def io_ok_def)

text \<open>
  The connection of the Runware unit is refused while the local unit succeeds: the round
  returns both outcomes, the first \<open>FAILED\<close>, the second \<open>SUCCESS\<close>.
\<close>

theorem unit_exceptions_become_outcomes_witness:
  "RunwareProvider_try bp_rmbg2 io_error = Inl (Exception ''connection refused'')
   \<and> ProviderResult.status (RunwareProvider_remove_background bp_rmbg2 ''rw-key'' io_error)
       = ProviderStatus.FAILED
   \<and> map ProviderResult.status (ShotgunResult.results (execute svc0 None world_one_fails))
       = [ProviderStatus.FAILED, ProviderStatus.SUCCESS]"
proof -
  have in_time: "all_in_time world_one_fails (total_timeout svc0) (active_providers svc0 None)"
    by (simp add: all_in_time_def active_svc0 svc0_mode world_one_fails_def io_error_def io_ok_def)
  have key: "''rw-key'' \<noteq> []" by simp
  note inst = unit_exceptions_become_outcomes [where k = "''rw-key''" and b = bp_rmbg2
      and w = io_error and e = "Exception ''connection refused''" and self = svc0
      and models = None and world = world_one_fails]
  from inst key try_io_error
  have unit: "ProviderResult.status (RunwareProvider_remove_background bp_rmbg2 ''rw-key'' io_error)
       = ProviderStatus.FAILED"
    by simp
  from inst in_time
  have "ShotgunResult.results (execute svc0 None world_one_fails)
       = map (run_unit world_one_fails) (active_providers svc0 None)"
    by blast
  then show ?thesis
    using unit try_io_error statuses_one_fails by simp
qed

lemma active_svc_sequential:
  "active_providers svc_sequential None =
     [(''runware_rmbg2'', RunwareProvider bp_rmbg2 ''rw-key''), (''local_isnet'', LocalProvider bp_isnet)]"
  by (simp add: active_providers_def svc_sequential_def svc0_def initialize_def
        get_enabled_bg_models_def get_default_shotgun_models_def create_provider_def
        get_provider_config_def Let_def cfg_rmbg2_def cfg_isnet_def bp_rmbg2_def bp_isnet_def)

lemma svc_sequential_mode: "\<not> parallel_mode svc_sequential"
  by (simp add: parallel_mode_def svc_sequential_def svc0_def)

lemma late_units:
  "run_unit world_late_failure (''runware_rmbg2'', RunwareProvider bp_rmbg2 ''rw-key'')
     = create_error_result bp_rmbg2 ''connection refused'' ProviderStatus.FAILED 0"
  "ProviderResult.status (run_unit world_late_failure (''local_isnet'', LocalProvider bp_isnet))
     = ProviderStatus.SUCCESS"
  "ProviderResult_is_success (run_unit world_late_failure (''local_isnet'', LocalProvider bp_isnet))"
  by (simp_all add: run_unit_runware run_unit_local world_late_failure_def io_error_late_def
        io_error_def io_ok_def RunwareProvider_remove_background_def RunwareProvider_try_def
        LocalProvider_remove_background_def LocalProvider_try_def ProviderResult_init_def
        ProviderResult_is_success_def)

text \<open>
  C2 fails in the service. Two providers are dispatched in the default parallel mode with
  the batch timeout of 90 seconds. The local unit has its image after one second; the
  connection of the Runware unit is refused only after 100 seconds. Taken alone, the
  Runware unit gives a \<open>FAILED\<close> outcome and the local unit a successful one, yet
  \<open>execute\<close> returns no outcome at all and counts no success: the failure of one provider
  has emptied the batch. The sequential branch of the same function records both
  outcomes for the same units.
\<close>

theorem late_failure_empties_the_round:
  "active_providers svc0 None
     = [(''runware_rmbg2'', RunwareProvider bp_rmbg2 ''rw-key''), (''local_isnet'', LocalProvider bp_isnet)]
   \<and> parallel_mode svc0 \<and> total_timeout svc0 = 90
   \<and> finish_s (unit_io world_late_failure ''runware_rmbg2'') = 100
   \<and> finish_s (unit_io world_late_failure ''local_isnet'') = 1
   \<and> ProviderResult.status
        (run_unit world_late_failure (''runware_rmbg2'', RunwareProvider bp_rmbg2 ''rw-key''))
       = ProviderStatus.FAILED
   \<and> ProviderResult_is_success
        (run_unit world_late_failure (''local_isnet'', LocalProvider bp_isnet))
   \<and> ShotgunResult.results (execute svc0 None world_late_failure) = []
   \<and> successful_count (execute svc0 None world_late_failure) = 0
   \<and> map ProviderResult.status
        (ShotgunResult.results (execute svc_sequential None world_late_failure))
       = [ProviderStatus.FAILED, ProviderStatus.SUCCESS]"
proof -
  have fin: "finish_s (unit_io world_late_failure ''runware_rmbg2'') = 100"
    "finish_s (unit_io world_late_failure ''local_isnet'') = 1"
    by (simp_all add: world_late_failure_def io_error_late_def io_error_def io_ok_def)
  have late: "\<not> all_in_time world_late_failure (total_timeout svc0) (active_providers svc0 None)"
    by (simp add: all_in_time_def active_svc0 svc0_mode fin)
  have empty: "ShotgunResult.results (execute svc0 None world_late_failure) = []"
    using late by (simp add: execute_results svc0_mode)
  have none: "successful_count (execute svc0 None world_late_failure) = 0"
    by (simp add: execute_successful_count empty)
  have failed: "ProviderResult.status
        (run_unit world_late_failure (''runware_rmbg2'', RunwareProvider bp_rmbg2 ''rw-key''))
       = ProviderStatus.FAILED"
    by (simp add: late_units(1) create_error_result_def ProviderResult_init_def)
  have seq: "map ProviderResult.status
        (ShotgunResult.results (execute svc_sequential None world_late_failure))
       = [ProviderStatus.FAILED, ProviderStatus.SUCCESS]"
    by (simp add: execute_results svc_sequential_mode active_svc_sequential failed late_units(2))
  from active_svc0 svc0_mode fin failed late_units(3) empty none seq
  show ?thesis by (intro conjI)
qed

subsection \<open>One outcome for each finished unit\<close>

lemma done_length:
  "length (fst (asyncio_wait masq cw ts)) = length [t \<leftarrow> ts. task_done masq cw t]"
  by (simp add: asyncio_wait_def)

lemma done_mset:
  "mset (fst (asyncio_wait masq cw ts)) = mset [t \<leftarrow> ts. task_done masq cw t]"
  by (simp add: asyncio_wait_def)

lemma Masq_results_length:
  "length (core_ShotgunResult.results (Masq_remove_background masq cmodels cw))
     = length [t \<leftarrow> create_tasks (dispatched masq cmodels). task_done masq cw t]"
proof -
  have "length (map Inr (core_ShotgunResult.results (Masq_remove_background masq cmodels cw))
                  :: (exn + ModelResult) list)
        = length (fst (asyncio_wait masq cw (create_tasks (dispatched masq cmodels))))"
    by (simp only: Masq_results_outcomes length_map)
  then show ?thesis by (simp add: done_length)
qed

lemma Masq_results_mset:
  "mset (map Inr (core_ShotgunResult.results (Masq_remove_background masq cmodels cw)))
     = mset (map (\<lambda>t. run_model masq (snd t) (task_call cw (fst t)))
               [t \<leftarrow> create_tasks (dispatched masq cmodels). task_done masq cw t])"
proof -
  have "mset (map (\<lambda>t. run_model masq (snd t) (task_call cw (fst t)))
               (fst (asyncio_wait masq cw (create_tasks (dispatched masq cmodels)))))
        = image_mset (\<lambda>t. run_model masq (snd t) (task_call cw (fst t)))
            (mset (fst (asyncio_wait masq cw (create_tasks (dispatched masq cmodels)))))"
    by simp
  also have "\<dots> = image_mset (\<lambda>t. run_model masq (snd t) (task_call cw (fst t)))
            (mset [t \<leftarrow> create_tasks (dispatched masq cmodels). task_done masq cw t])"
    by (simp only: done_mset)
  finally show ?thesis
    by (simp add: Masq_results_outcomes)
qed

lemma all_done_length:
  "list_all (task_done masq cw) ts \<Longrightarrow> length [t \<leftarrow> ts. task_done masq cw t] = length ts"
  by (induction ts) simp_all

text \<open>
  C1, as the code has it. In every round of \<open>Masq.remove_background\<close>, each dispatched
  unit that is terminal by the batch timeout yields exactly one outcome and a unit still
  running then yields none: the results are, up to their order, the outcomes of the
  finished tasks, their number is the number of finished tasks, and it is the number of
  dispatched models when no task is pending. In every round of \<open>ShotgunService.execute\<close>
  that runs sequentially or whose units all finish within the total timeout, each
  dispatched provider yields exactly one outcome, in the order of dispatch, and the
  number of outcomes is the number of providers dispatched.
\<close>

theorem one_outcome_per_finished_unit:
  "length (core_ShotgunResult.results (Masq_remove_background masq cmodels cw))
     = length [t \<leftarrow> create_tasks (dispatched masq cmodels). task_done masq cw t]
   \<and> mset (map Inr (core_ShotgunResult.results (Masq_remove_background masq cmodels cw)))
     = mset (map (\<lambda>t. run_model masq (snd t) (task_call cw (fst t)))
               [t \<leftarrow> create_tasks (dispatched masq cmodels). task_done masq cw t])
   \<and> (list_all (task_done masq cw) (create_tasks (dispatched masq cmodels))
      \<longrightarrow> length (core_ShotgunResult.results (Masq_remove_background masq cmodels cw))
            = length (dispatched masq cmodels))
   \<and> (\<not> parallel_mode self
        \<or> all_in_time world (total_timeout self) (active_providers self models)
      \<longrightarrow> ShotgunResult.results (execute self models world)
            = map (run_unit world) (active_providers self models)
        \<and> length (ShotgunResult.results (execute self models world))
            = length (active_providers self models))"
proof -
  have a: "list_all (task_done masq cw) (create_tasks (dispatched masq cmodels))
      \<longrightarrow> length (core_ShotgunResult.results (Masq_remove_background masq cmodels cw))
            = length (dispatched masq cmodels)"
    by (simp add: Masq_results_length all_done_length) (simp add: create_tasks_def)
  have b: "\<not> parallel_mode self
        \<or> all_in_time world (total_timeout self) (active_providers self models)
      \<longrightarrow> ShotgunResult.results (execute self models world)
            = map (run_unit world) (active_providers self models)
        \<and> length (ShotgunResult.results (execute self models world))
            = length (active_providers self models)"
    by (auto simp: execute_results)
  show ?thesis
    using a b Masq_results_length [of masq cmodels cw] Masq_results_mset [of masq cmodels cw]
    by blast
qed

lemma dispatched_two:
  "dispatched masq0 (Some [''kie_recraft'', ''local_isnet'']) = [''kie_recraft'', ''local_isnet'']"
  by (simp add: dispatched_def get_available_models_def model_available_def MODELS_def
        masq0_def truthy_def)

lemma tasks_two:
  "create_tasks [''kie_recraft'', ''local_isnet''] = [(0, ''kie_recraft''), (1, ''local_isnet'')]"
  by (simp add: create_tasks_def)

lemma run_isnet_ok:
  "run_model masq0 ''local_isnet'' call_ok =
     Inr ((ModelResult_init ''local_isnet'' ''ISNet'' ''local'' ModelStatus.SUCCESS)
            \<lparr>ModelResult.image_bytes := Some [137, 80, 78],
             ModelResult.image_base64 := Some ''iVBO'',
             ModelResult.processing_time_ms := 800,
             ModelResult.cost := 0\<rparr>)"
  by (simp add: run_model_def run_model_try_def MODELS_def call_ok_def b64_alphabet_def)

text \<open>
  C1 as stated fails. Two models are dispatched and the Kie task is still polling when
  the batch timeout of 150 seconds is over: the result holds the one outcome of the local
  model and nothing for the cancelled task. In the service, with the local unit running
  past the 90 seconds of the batch, two providers are dispatched and no outcome is kept.
\<close>

theorem pending_unit_leaves_no_outcome:
  "length (dispatched masq0 (Some [''kie_recraft'', ''local_isnet''])) = 2
   \<and> map ModelResult.model_id
        (core_ShotgunResult.results
           (Masq_remove_background masq0 (Some [''kie_recraft'', ''local_isnet'']) cworld_slow))
       = [''local_isnet'']
   \<and> map ModelResult.status
        (core_ShotgunResult.results
           (Masq_remove_background masq0 (Some [''kie_recraft'', ''local_isnet'']) cworld_slow))
       = [ModelStatus.SUCCESS]
   \<and> length (active_providers svc0 None) = 2
   \<and> ShotgunResult.results (execute svc0 None world_one_slow) = []"
proof -
  have finished: "fst (asyncio_wait masq0 cworld_slow [(0, ''kie_recraft''), (1, ''local_isnet'')])
      = [(1, ''local_isnet'')]"
    by (simp add: asyncio_wait_def task_done_def cworld_slow_def call_slow_def call_ok_def
          masq0_def)
  have core: "core_ShotgunResult.results
           (Masq_remove_background masq0 (Some [''kie_recraft'', ''local_isnet'']) cworld_slow)
      = collect_done masq0 cworld_slow [(1, ''local_isnet'')]"
    by (simp only: Masq_results dispatched_two tasks_two finished)
  have c: "task_call cworld_slow (Suc 0) = call_ok"
    by (simp add: cworld_slow_def)
  have late: "\<not> all_in_time world_one_slow (total_timeout svc0) (active_providers svc0 None)"
    by (simp add: all_in_time_def active_svc0 svc0_mode world_one_slow_def io_slow_def io_ok_def)
  have svc: "ShotgunResult.results (execute svc0 None world_one_slow) = []"
    using late by (simp add: execute_results svc0_mode)
  show ?thesis
    using svc by (simp add: core c run_isnet_ok dispatched_two active_svc0 ModelResult_init_def)
qed

text \<open>
  Both units finish in time (one of them with a failure): two dispatched, two outcomes.
\<close>

theorem one_outcome_per_finished_unit_witness:
  "list_all (task_done masq0 cworld_ok)
     (create_tasks (dispatched masq0 (Some [''kie_recraft'', ''local_isnet''])))
   \<and> length (core_ShotgunResult.results
        (Masq_remove_background masq0 (Some [''kie_recraft'', ''local_isnet'']) cworld_ok)) = 2
   \<and> all_in_time world_one_fails (total_timeout svc0) (active_providers svc0 None)
   \<and> length (ShotgunResult.results (execute svc0 None world_one_fails)) = 2"
proof -
  have "list_all (task_done masq0 cworld_ok) [(0, ''kie_recraft''), (1, ''local_isnet'')]"
    by (simp add: task_done_def cworld_ok_def call_ok_def call_fails_def masq0_def)
  then have d: "list_all (task_done masq0 cworld_ok)
     (create_tasks (dispatched masq0 (Some [''kie_recraft'', ''local_isnet''])))"
    by (simp only: dispatched_two tasks_two)
  have in_time: "all_in_time world_one_fails (total_timeout svc0) (active_providers svc0 None)"
    by (simp add: all_in_time_def active_svc0 svc0_mode world_one_fails_def io_error_def io_ok_def)
  note inst = one_outcome_per_finished_unit [where masq = masq0
      and cmodels = "Some [''kie_recraft'', ''local_isnet'']" and cw = cworld_ok
      and self = svc0 and models = None and world = world_one_fails]
  from inst d have "length (core_ShotgunResult.results
        (Masq_remove_background masq0 (Some [''kie_recraft'', ''local_isnet'']) cworld_ok))
      = length (dispatched masq0 (Some [''kie_recraft'', ''local_isnet'']))"
    by blast
  moreover from inst in_time
  have "length (ShotgunResult.results (execute svc0 None world_one_fails))
      = length (active_providers svc0 None)"
    by blast
  ultimately show ?thesis
    using d in_time by (simp add: dispatched_two active_svc0)
qed


subsection \<open>The scale factor\<close>

lemma clamp_idem: "max 1 (min (max 1 (min sc 8)) 8) = max (1::int) (min sc 8)"
  by simp

lemma upscale_clamped:
  "max_scale self = 8 \<Longrightarrow>
   upscale lib self b (Some sc) pa tmo w = upscale lib self b (Some (max 1 (min sc 8))) pa tmo w"
  by (auto simp: upscale_def Let_def clamp_idem split: sum.splits exn.splits prod.splits if_splits)

lemma upscale_scale_factor:
  "max_scale self = 8 \<Longrightarrow> UpscaleResult.success (upscale lib self b (Some sc) pa tmo w) \<Longrightarrow>
   UpscaleResult.scale_factor (upscale lib self b (Some sc) pa tmo w) = of_int (max 1 (min sc 8))"
  by (auto simp: upscale_def Let_def UpscaleResult_init_def split: sum.splits exn.splits prod.splits if_splits)

lemma Masq_upscale_clamped:
  "Masq_upscale lib b sc pa w = Masq_upscale lib b (max 1 (min sc 8)) pa w"
  by (simp add: Masq_upscale_def Let_def clamp_idem)

lemma Masq_upscale_scale_factor:
  "core_UpscaleResult.success (Masq_upscale lib b sc pa w) \<Longrightarrow>
   core_UpscaleResult.scale_factor (Masq_upscale lib b sc pa w) = max 1 (min sc 8)"
  by (auto simp: Masq_upscale_def Let_def core_UpscaleResult_init_def
        split: sum.splits exn.splits prod.splits if_splits)

lemma upscale_proceeds:
  "max_scale self = 8 \<Longrightarrow> \<not> tmo < up_exec_s w \<Longrightarrow>
   upscale_sync lib b (max 1 (min sc 8)) pa = Inr (bs, orig, new, alpha) \<Longrightarrow>
   upscale lib self b (Some sc) pa tmo w =
     (UpscaleResult_init True)
       \<lparr>UpscaleResult.image_base64 := Some (b64encode bs),
        UpscaleResult.original_size := orig,
        UpscaleResult.upscaled_size := new,
        UpscaleResult.scale_factor := of_int (max 1 (min sc 8)),
        UpscaleResult.processing_time_ms := up_elapsed_ms w,
        UpscaleResult.has_alpha := alpha\<rparr>"
  by (simp add: upscale_def Let_def)

lemma Masq_upscale_proceeds:
  "\<not> 60 < up_exec_s w \<Longrightarrow>
   core_process lib b (max 1 (min sc 8)) pa = Inr (bs, orig, new, alpha) \<Longrightarrow>
   Masq_upscale lib b sc pa w =
     (core_UpscaleResult_init True)
       \<lparr>core_UpscaleResult.image_bytes := Some bs,
        core_UpscaleResult.image_base64 := Some (b64encode bs),
        core_UpscaleResult.original_size := orig,
        core_UpscaleResult.upscaled_size := new,
        core_UpscaleResult.scale_factor := max 1 (min sc 8),
        core_UpscaleResult.processing_time_ms := up_elapsed_ms w,
        core_UpscaleResult.has_alpha := alpha\<rparr>"
  by (simp add: Masq_upscale_def Let_def)

text \<open>
  C5. The Transform Engine clamps the scale factor into [1, 8] and proceeds: for every
  integer scale the call gives the very result of the call with the clamped scale, which
  lies between 1 and 8, and a successful result reports the clamped scale. Whenever the
  processing at the clamped scale returns within the timeout, the call succeeds with the
  result of that processing. This holds for \<open>UpscalerService.upscale\<close> with the maximum
  8 of its constructor and for \<open>Masq.upscale\<close>.
\<close>

theorem scale_is_clamped:
  "(max_scale self = 8 \<longrightarrow>
      upscale lib self b (Some sc) pa tmo w
        = upscale lib self b (Some (max 1 (min sc 8))) pa tmo w)
   \<and> (max_scale self = 8 \<and> UpscaleResult.success (upscale lib self b (Some sc) pa tmo w) \<longrightarrow>
      UpscaleResult.scale_factor (upscale lib self b (Some sc) pa tmo w)
        = of_int (max 1 (min sc 8)))
   \<and> Masq_upscale lib b sc pa w = Masq_upscale lib b (max 1 (min sc 8)) pa w
   \<and> (core_UpscaleResult.success (Masq_upscale lib b sc pa w) \<longrightarrow>
      core_UpscaleResult.scale_factor (Masq_upscale lib b sc pa w) = max 1 (min sc 8))
   \<and> 1 \<le> max 1 (min sc 8) \<and> max 1 (min sc 8) \<le> 8
   \<and> max_scale get_upscaler_service = 8
   \<and> (max_scale self = 8 \<and> \<not> tmo < up_exec_s w
        \<and> upscale_sync lib b (max 1 (min sc 8)) pa = Inr (bs, orig, new, alpha) \<longrightarrow>
      upscale lib self b (Some sc) pa tmo w =
        (UpscaleResult_init True)
          \<lparr>UpscaleResult.image_base64 := Some (b64encode bs),
           UpscaleResult.original_size := orig,
           UpscaleResult.upscaled_size := new,
           UpscaleResult.scale_factor := of_int (max 1 (min sc 8)),
           UpscaleResult.processing_time_ms := up_elapsed_ms w,
           UpscaleResult.has_alpha := alpha\<rparr>)
   \<and> (\<not> 60 < up_exec_s w
        \<and> core_process lib b (max 1 (min sc 8)) pa = Inr (bs', orig', new', alpha') \<longrightarrow>
      Masq_upscale lib b sc pa w =
        (core_UpscaleResult_init True)
          \<lparr>core_UpscaleResult.image_bytes := Some bs',
           core_UpscaleResult.image_base64 := Some (b64encode bs'),
           core_UpscaleResult.original_size := orig',
           core_UpscaleResult.upscaled_size := new',
           core_UpscaleResult.scale_factor := max 1 (min sc 8),
           core_UpscaleResult.processing_time_ms := up_elapsed_ms w,
           core_UpscaleResult.has_alpha := alpha'\<rparr>)"
proof -
  have "max_scale get_upscaler_service = 8"
    by (simp add: get_upscaler_service_def)
  moreover have "1 \<le> max 1 (min sc 8)" "max 1 (min sc 8) \<le> 8"
    by simp_all
  ultimately show ?thesis
    using upscale_clamped [of self lib b sc pa tmo w]
      upscale_scale_factor [of self lib b sc pa tmo w]
      Masq_upscale_clamped [of lib b sc pa w] Masq_upscale_scale_factor [of lib b sc pa w]
      upscale_proceeds [of self tmo w lib b sc pa bs orig new alpha]
      Masq_upscale_proceeds [of w lib b sc pa bs' orig' new' alpha']
    by blast
qed

lemma core_process_lib0:
  "core_process lib0 [137, 80] 8 True = Inr ([137, 80, 78, 71], (2, 1), (16, 8), True)"
  "core_process lib0 [137, 80] 1 True = Inr ([137, 80, 78, 71], (2, 1), (2, 1), True)"
  "upscale_sync lib0 [137, 80] 8 True = Inr ([137, 80, 78, 71], (2, 1), (16, 8), True)"
  "upscale_sync lib0 [137, 80] 1 True = Inr ([137, 80, 78, 71], (2, 1), (2, 1), True)"
  by (simp_all add: core_process_def upscale_sync_def lib0_def img_rgba_def Let_def)

text \<open>
  The scales 100 and \<open>-3\<close> are accepted by both engines: the calls succeed with the
  scales 8 and 1, and with an output of 16 by 8 and of 2 by 1 for the image of 2 by 1.
\<close>

theorem scale_is_clamped_witness:
  "UpscaleResult.success (upscale lib0 get_upscaler_service [137, 80] (Some 100) True 60 up_world0)
   \<and> UpscaleResult.scale_factor (upscale lib0 get_upscaler_service [137, 80] (Some 100) True 60 up_world0) = 8
   \<and> UpscaleResult.upscaled_size (upscale lib0 get_upscaler_service [137, 80] (Some 100) True 60 up_world0)
       = (16, 8)
   \<and> UpscaleResult.success (upscale lib0 get_upscaler_service [137, 80] (Some (- 3)) True 60 up_world0)
   \<and> UpscaleResult.scale_factor (upscale lib0 get_upscaler_service [137, 80] (Some (- 3)) True 60 up_world0) = 1
   \<and> UpscaleResult.upscaled_size (upscale lib0 get_upscaler_service [137, 80] (Some (- 3)) True 60 up_world0)
       = (2, 1)
   \<and> core_UpscaleResult.success (Masq_upscale lib0 [137, 80] 100 True up_world0)
   \<and> core_UpscaleResult.scale_factor (Masq_upscale lib0 [137, 80] 100 True up_world0) = 8
   \<and> core_UpscaleResult.upscaled_size (Masq_upscale lib0 [137, 80] 100 True up_world0) = (16, 8)
   \<and> core_UpscaleResult.image_bytes (Masq_upscale lib0 [137, 80] 100 True up_world0)
       = Some [137, 80, 78, 71]
   \<and> core_UpscaleResult.success (Masq_upscale lib0 [137, 80] (- 3) True up_world0)
   \<and> core_UpscaleResult.scale_factor (Masq_upscale lib0 [137, 80] (- 3) True up_world0) = 1
   \<and> core_UpscaleResult.upscaled_size (Masq_upscale lib0 [137, 80] (- 3) True up_world0) = (2, 1)"
proof -
  have m: "max_scale get_upscaler_service = 8"
    by (simp add: get_upscaler_service_def)
  have t: "\<not> 60 < up_exec_s up_world0"
    by (simp add: up_world0_def)
  have c: "max 1 (min 100 8) = (8::int)" "max 1 (min (- 3) 8) = (1::int)"
    by simp_all
  have s8: "upscale_sync lib0 [137, 80] (max 1 (min 100 8)) True
      = Inr ([137, 80, 78, 71], (2, 1), (16, 8), True)"
    and s1: "upscale_sync lib0 [137, 80] (max 1 (min (- 3) 8)) True
      = Inr ([137, 80, 78, 71], (2, 1), (2, 1), True)"
    and p8: "core_process lib0 [137, 80] (max 1 (min 100 8)) True
      = Inr ([137, 80, 78, 71], (2, 1), (16, 8), True)"
    and p1: "core_process lib0 [137, 80] (max 1 (min (- 3) 8)) True
      = Inr ([137, 80, 78, 71], (2, 1), (2, 1), True)"
    by (simp_all only: c core_process_lib0)
  note big = scale_is_clamped [where self = get_upscaler_service and lib = lib0
      and b = "[137, 80]" and sc = 100 and pa = True and tmo = 60 and w = up_world0
      and bs = "[137, 80, 78, 71]" and orig = "(2, 1)" and new = "(16, 8)" and alpha = True
      and bs' = "[137, 80, 78, 71]" and orig' = "(2, 1)" and new' = "(16, 8)" and alpha' = True]
  note small = scale_is_clamped [where self = get_upscaler_service and lib = lib0
      and b = "[137, 80]" and sc = "- 3" and pa = True and tmo = 60 and w = up_world0
      and bs = "[137, 80, 78, 71]" and orig = "(2, 1)" and new = "(2, 1)" and alpha = True
      and bs' = "[137, 80, 78, 71]" and orig' = "(2, 1)" and new' = "(2, 1)" and alpha' = True]
  from big m t s8 have u8: "upscale lib0 get_upscaler_service [137, 80] (Some 100) True 60 up_world0 =
        (UpscaleResult_init True)
          \<lparr>UpscaleResult.image_base64 := Some (b64encode [137, 80, 78, 71]),
           UpscaleResult.original_size := (2, 1),
           UpscaleResult.upscaled_size := (16, 8),
           UpscaleResult.scale_factor := of_int (max 1 (min 100 8)),
           UpscaleResult.processing_time_ms := up_elapsed_ms up_world0,
           UpscaleResult.has_alpha := True\<rparr>"
    by blast
  from small m t s1 have u1: "upscale lib0 get_upscaler_service [137, 80] (Some (- 3)) True 60 up_world0 =
        (UpscaleResult_init True)
          \<lparr>UpscaleResult.image_base64 := Some (b64encode [137, 80, 78, 71]),
           UpscaleResult.original_size := (2, 1),
           UpscaleResult.upscaled_size := (2, 1),
           UpscaleResult.scale_factor := of_int (max 1 (min (- 3) 8)),
           UpscaleResult.processing_time_ms := up_elapsed_ms up_world0,
           UpscaleResult.has_alpha := True\<rparr>"
    by blast
  from big t p8 have m8: "Masq_upscale lib0 [137, 80] 100 True up_world0 =
        (core_UpscaleResult_init True)
          \<lparr>core_UpscaleResult.image_bytes := Some [137, 80, 78, 71],
           core_UpscaleResult.image_base64 := Some (b64encode [137, 80, 78, 71]),
           core_UpscaleResult.original_size := (2, 1),
           core_UpscaleResult.upscaled_size := (16, 8),
           core_UpscaleResult.scale_factor := max 1 (min 100 8),
           core_UpscaleResult.processing_time_ms := up_elapsed_ms up_world0,
           core_UpscaleResult.has_alpha := True\<rparr>"
    by blast
  from small t p1 have m1: "Masq_upscale lib0 [137, 80] (- 3) True up_world0 =
        (core_UpscaleResult_init True)
          \<lparr>core_UpscaleResult.image_bytes := Some [137, 80, 78, 71],
           core_UpscaleResult.image_base64 := Some (b64encode [137, 80, 78, 71]),
           core_UpscaleResult.original_size := (2, 1),
           core_UpscaleResult.upscaled_size := (2, 1),
           core_UpscaleResult.scale_factor := max 1 (min (- 3) 8),
           core_UpscaleResult.processing_time_ms := up_elapsed_ms up_world0,
           core_UpscaleResult.has_alpha := True\<rparr>"
    by blast
  show ?thesis
    by (simp add: u8 u1 m8 m1 UpscaleResult_init_def core_UpscaleResult_init_def)
qed


subsection \<open>The sizes reported for an RGBA image\<close>

lemma upscale_sync_rgba_keep:
  "Image_open lib b = Inr img \<Longrightarrow> mode img = ''RGBA'' \<Longrightarrow>
   resize_LANCZOS lib img (fst (img_size img) * sc, snd (img_size img) * sc) = Inr out \<Longrightarrow>
   upscale_sync lib b sc True
     = Inr (save_PNG lib out, img_size img,
            (fst (img_size img) * sc, snd (img_size img) * sc), True)"
  by (simp add: upscale_sync_def Let_def)

lemma core_process_rgba_keep:
  "Image_open lib b = Inr img \<Longrightarrow> mode img = ''RGBA'' \<Longrightarrow>
   resize_LANCZOS lib img (fst (img_size img) * sc, snd (img_size img) * sc) = Inr out \<Longrightarrow>
   core_process lib b sc True
     = Inr (save_PNG lib out, img_size img,
            (fst (img_size img) * sc, snd (img_size img) * sc), True)"
  by (simp add: core_process_def Let_def)

lemma upscale_sync_sizes:
  "Image_open lib b = Inr img \<Longrightarrow> upscale_sync lib b sc pa = Inr (bs, orig, new, alpha) \<Longrightarrow>
   orig = img_size img \<and> new = (fst (img_size img) * sc, snd (img_size img) * sc)"
  by (auto simp: upscale_sync_def Let_def split: sum.splits if_splits)

lemma core_process_sizes:
  "Image_open lib b = Inr img \<Longrightarrow> core_process lib b sc pa = Inr (bs, orig, new, alpha) \<Longrightarrow>
   orig = img_size img \<and> new = (fst (img_size img) * sc, snd (img_size img) * sc)"
  by (auto simp: core_process_def Let_def split: sum.splits if_splits)

lemma upscale_keep_result:
  assumes "Image_open lib b = Inr img" "mode img = ''RGBA''"
    and "resize_LANCZOS lib img (fst (img_size img) * sc, snd (img_size img) * sc) = Inr out"
    and "\<not> tmo < up_exec_s w" "sc = 1 \<or> sc = 4"
  shows "upscale lib get_upscaler_service b (Some sc) True tmo w =
     (UpscaleResult_init True)
       \<lparr>UpscaleResult.image_base64 := Some (b64encode (save_PNG lib out)),
        UpscaleResult.original_size := img_size img,
        UpscaleResult.upscaled_size := (fst (img_size img) * sc, snd (img_size img) * sc),
        UpscaleResult.scale_factor := of_int sc,
        UpscaleResult.processing_time_ms := up_elapsed_ms w,
        UpscaleResult.has_alpha := True\<rparr>"
proof -
  have c: "max 1 (min sc (max_scale get_upscaler_service)) = sc"
    using assms(5) by (auto simp: get_upscaler_service_def)
  show ?thesis
    using assms(4) upscale_sync_rgba_keep [OF assms(1-3)]
    by (simp add: upscale_def Let_def c)
qed

lemma Masq_upscale_keep_result:
  assumes "Image_open lib b = Inr img" "mode img = ''RGBA''"
    and "resize_LANCZOS lib img (fst (img_size img) * sc, snd (img_size img) * sc) = Inr out"
    and "\<not> 60 < up_exec_s w" "sc = 1 \<or> sc = 4"
  shows "Masq_upscale lib b sc True w =
     (core_UpscaleResult_init True)
       \<lparr>core_UpscaleResult.image_bytes := Some (save_PNG lib out),
        core_UpscaleResult.image_base64 := Some (b64encode (save_PNG lib out)),
        core_UpscaleResult.original_size := img_size img,
        core_UpscaleResult.upscaled_size := (fst (img_size img) * sc, snd (img_size img) * sc),
        core_UpscaleResult.scale_factor := sc,
        core_UpscaleResult.processing_time_ms := up_elapsed_ms w,
        core_UpscaleResult.has_alpha := True\<rparr>"
proof -
  have c: "max 1 (min sc 8) = sc"
    using assms(5) by auto
  show ?thesis
    using assms(4) core_process_rgba_keep [OF assms(1-3)]
    by (simp add: Masq_upscale_def Let_def c)
qed

text \<open>
  C6. For an image that decodes to mode \<open>RGBA\<close>, whenever the library's resize returns:
  with scale 1 and alpha preserved the engine returns the original size as both sizes
  and \<open>has_alpha\<close> true; with scale 4 it returns four times the width and four times the
  height as the new size. Whatever the alpha flag, a returned pair of sizes is the
  original size and its multiple. The same holds for the results of \<open>upscale\<close> and of
  \<open>Masq.upscale\<close> when the job is done within the timeout.
\<close>

theorem rgba_dimensions:
  "(Image_open lib b = Inr img \<and> mode img = ''RGBA''
      \<and> resize_LANCZOS lib img (img_size img) = Inr out \<longrightarrow>
        upscale_sync lib b 1 True = Inr (save_PNG lib out, img_size img, img_size img, True)
      \<and> core_process lib b 1 True = Inr (save_PNG lib out, img_size img, img_size img, True)
      \<and> (\<not> tmo < up_exec_s w \<longrightarrow>
           UpscaleResult.success (upscale lib get_upscaler_service b (Some 1) True tmo w)
         \<and> UpscaleResult.original_size (upscale lib get_upscaler_service b (Some 1) True tmo w)
             = img_size img
         \<and> UpscaleResult.upscaled_size (upscale lib get_upscaler_service b (Some 1) True tmo w)
             = img_size img
         \<and> UpscaleResult.has_alpha (upscale lib get_upscaler_service b (Some 1) True tmo w))
      \<and> (\<not> 60 < up_exec_s w \<longrightarrow>
           core_UpscaleResult.success (Masq_upscale lib b 1 True w)
         \<and> core_UpscaleResult.original_size (Masq_upscale lib b 1 True w) = img_size img
         \<and> core_UpscaleResult.upscaled_size (Masq_upscale lib b 1 True w) = img_size img
         \<and> core_UpscaleResult.has_alpha (Masq_upscale lib b 1 True w)))
   \<and> (Image_open lib b = Inr img \<and> mode img = ''RGBA''
      \<and> resize_LANCZOS lib img (4 * fst (img_size img), 4 * snd (img_size img)) = Inr out4 \<longrightarrow>
        upscale_sync lib b 4 True
          = Inr (save_PNG lib out4, img_size img,
                 (4 * fst (img_size img), 4 * snd (img_size img)), True)
      \<and> core_process lib b 4 True
          = Inr (save_PNG lib out4, img_size img,
                 (4 * fst (img_size img), 4 * snd (img_size img)), True)
      \<and> (\<not> tmo < up_exec_s w \<longrightarrow>
           UpscaleResult.success (upscale lib get_upscaler_service b (Some 4) True tmo w)
         \<and> UpscaleResult.upscaled_size (upscale lib get_upscaler_service b (Some 4) True tmo w)
             = (4 * fst (img_size img), 4 * snd (img_size img)))
      \<and> (\<not> 60 < up_exec_s w \<longrightarrow>
           core_UpscaleResult.success (Masq_upscale lib b 4 True w)
         \<and> core_UpscaleResult.upscaled_size (Masq_upscale lib b 4 True w)
             = (4 * fst (img_size img), 4 * snd (img_size img))))
   \<and> (Image_open lib b = Inr img \<and> upscale_sync lib b 4 pa = Inr (bs, orig, new, alpha) \<longrightarrow>
        orig = img_size img \<and> new = (4 * fst (img_size img), 4 * snd (img_size img)))
   \<and> (Image_open lib b = Inr img \<and> core_process lib b 4 pa = Inr (bs, orig, new, alpha) \<longrightarrow>
        orig = img_size img \<and> new = (4 * fst (img_size img), 4 * snd (img_size img)))"
proof -
  have one: "Image_open lib b = Inr img \<and> mode img = ''RGBA''
      \<and> resize_LANCZOS lib img (img_size img) = Inr out \<longrightarrow>
        upscale_sync lib b 1 True = Inr (save_PNG lib out, img_size img, img_size img, True)
      \<and> core_process lib b 1 True = Inr (save_PNG lib out, img_size img, img_size img, True)
      \<and> (\<not> tmo < up_exec_s w \<longrightarrow>
           UpscaleResult.success (upscale lib get_upscaler_service b (Some 1) True tmo w)
         \<and> UpscaleResult.original_size (upscale lib get_upscaler_service b (Some 1) True tmo w)
             = img_size img
         \<and> UpscaleResult.upscaled_size (upscale lib get_upscaler_service b (Some 1) True tmo w)
             = img_size img
         \<and> UpscaleResult.has_alpha (upscale lib get_upscaler_service b (Some 1) True tmo w))
      \<and> (\<not> 60 < up_exec_s w \<longrightarrow>
           core_UpscaleResult.success (Masq_upscale lib b 1 True w)
         \<and> core_UpscaleResult.original_size (Masq_upscale lib b 1 True w) = img_size img
         \<and> core_UpscaleResult.upscaled_size (Masq_upscale lib b 1 True w) = img_size img
         \<and> core_UpscaleResult.has_alpha (Masq_upscale lib b 1 True w))"
  proof (intro impI, elim conjE)
    assume h: "Image_open lib b = Inr img" "mode img = ''RGBA''"
      "resize_LANCZOS lib img (img_size img) = Inr out"
    then have r: "resize_LANCZOS lib img (fst (img_size img) * 1, snd (img_size img) * 1) = Inr out"
      by simp
    show "upscale_sync lib b 1 True = Inr (save_PNG lib out, img_size img, img_size img, True)
      \<and> core_process lib b 1 True = Inr (save_PNG lib out, img_size img, img_size img, True)
      \<and> (\<not> tmo < up_exec_s w \<longrightarrow>
           UpscaleResult.success (upscale lib get_upscaler_service b (Some 1) True tmo w)
         \<and> UpscaleResult.original_size (upscale lib get_upscaler_service b (Some 1) True tmo w)
             = img_size img
         \<and> UpscaleResult.upscaled_size (upscale lib get_upscaler_service b (Some 1) True tmo w)
             = img_size img
         \<and> UpscaleResult.has_alpha (upscale lib get_upscaler_service b (Some 1) True tmo w))
      \<and> (\<not> 60 < up_exec_s w \<longrightarrow>
           core_UpscaleResult.success (Masq_upscale lib b 1 True w)
         \<and> core_UpscaleResult.original_size (Masq_upscale lib b 1 True w) = img_size img
         \<and> core_UpscaleResult.upscaled_size (Masq_upscale lib b 1 True w) = img_size img
         \<and> core_UpscaleResult.has_alpha (Masq_upscale lib b 1 True w))"
      using upscale_sync_rgba_keep [OF h(1,2) r] core_process_rgba_keep [OF h(1,2) r]
        upscale_keep_result [OF h(1,2) r, of tmo w] Masq_upscale_keep_result [OF h(1,2) r, of w]
      by (simp add: UpscaleResult_init_def core_UpscaleResult_init_def)
  qed
  have four: "Image_open lib b = Inr img \<and> mode img = ''RGBA''
      \<and> resize_LANCZOS lib img (4 * fst (img_size img), 4 * snd (img_size img)) = Inr out4 \<longrightarrow>
        upscale_sync lib b 4 True
          = Inr (save_PNG lib out4, img_size img,
                 (4 * fst (img_size img), 4 * snd (img_size img)), True)
      \<and> core_process lib b 4 True
          = Inr (save_PNG lib out4, img_size img,
                 (4 * fst (img_size img), 4 * snd (img_size img)), True)
      \<and> (\<not> tmo < up_exec_s w \<longrightarrow>
           UpscaleResult.success (upscale lib get_upscaler_service b (Some 4) True tmo w)
         \<and> UpscaleResult.upscaled_size (upscale lib get_upscaler_service b (Some 4) True tmo w)
             = (4 * fst (img_size img), 4 * snd (img_size img)))
      \<and> (\<not> 60 < up_exec_s w \<longrightarrow>
           core_UpscaleResult.success (Masq_upscale lib b 4 True w)
         \<and> core_UpscaleResult.upscaled_size (Masq_upscale lib b 4 True w)
             = (4 * fst (img_size img), 4 * snd (img_size img)))"
  proof (intro impI, elim conjE)
    assume h: "Image_open lib b = Inr img" "mode img = ''RGBA''"
      "resize_LANCZOS lib img (4 * fst (img_size img), 4 * snd (img_size img)) = Inr out4"
    then have r: "resize_LANCZOS lib img (fst (img_size img) * 4, snd (img_size img) * 4) = Inr out4"
      by (simp add: mult.commute)
    show "upscale_sync lib b 4 True
          = Inr (save_PNG lib out4, img_size img,
                 (4 * fst (img_size img), 4 * snd (img_size img)), True)
      \<and> core_process lib b 4 True
          = Inr (save_PNG lib out4, img_size img,
                 (4 * fst (img_size img), 4 * snd (img_size img)), True)
      \<and> (\<not> tmo < up_exec_s w \<longrightarrow>
           UpscaleResult.success (upscale lib get_upscaler_service b (Some 4) True tmo w)
         \<and> UpscaleResult.upscaled_size (upscale lib get_upscaler_service b (Some 4) True tmo w)
             = (4 * fst (img_size img), 4 * snd (img_size img)))
      \<and> (\<not> 60 < up_exec_s w \<longrightarrow>
           core_UpscaleResult.success (Masq_upscale lib b 4 True w)
         \<and> core_UpscaleResult.upscaled_size (Masq_upscale lib b 4 True w)
             = (4 * fst (img_size img), 4 * snd (img_size img)))"
      using upscale_sync_rgba_keep [OF h(1,2) r] core_process_rgba_keep [OF h(1,2) r]
        upscale_keep_result [OF h(1,2) r, of tmo w] Masq_upscale_keep_result [OF h(1,2) r, of w]
      by (simp add: UpscaleResult_init_def core_UpscaleResult_init_def mult.commute)
  qed
  have any: "Image_open lib b = Inr img \<and> upscale_sync lib b 4 pa = Inr (bs, orig, new, alpha) \<longrightarrow>
        orig = img_size img \<and> new = (4 * fst (img_size img), 4 * snd (img_size img))"
    using upscale_sync_sizes [of lib b img 4 pa bs orig new alpha] by (auto simp: mult.commute)
  have any_core: "Image_open lib b = Inr img \<and> core_process lib b 4 pa = Inr (bs, orig, new, alpha) \<longrightarrow>
        orig = img_size img \<and> new = (4 * fst (img_size img), 4 * snd (img_size img))"
    using core_process_sizes [of lib b img 4 pa bs orig new alpha] by (auto simp: mult.commute)
  from one four any any_core show ?thesis by (intro conjI)
qed


lemma rgba_lib0:
  "Image_open lib0 [137, 80] = Inr img_rgba" "mode img_rgba = ''RGBA''"
  "img_size img_rgba = (2, 1)"
  "resize_LANCZOS lib0 img_rgba (2, 1) = Inr img_rgba"
  "resize_LANCZOS lib0 img_rgba (8, 4) = Inr (img_rgba\<lparr>img_size := (8, 4)\<rparr>)"
  "\<not> 60 < up_exec_s up_world0"
  by (simp_all add: lib0_def img_rgba_def up_world0_def)

text \<open>
  The image of 2 by 1 pixels: scale 1 leaves (2, 1) and keeps the alpha, scale 4 gives (8, 4).
\<close>

theorem rgba_dimensions_witness:
  "UpscaleResult.success (upscale lib0 get_upscaler_service [137, 80] (Some 1) True 60 up_world0)
   \<and> UpscaleResult.original_size (upscale lib0 get_upscaler_service [137, 80] (Some 1) True 60 up_world0)
       = (2, 1)
   \<and> UpscaleResult.upscaled_size (upscale lib0 get_upscaler_service [137, 80] (Some 1) True 60 up_world0)
       = (2, 1)
   \<and> UpscaleResult.has_alpha (upscale lib0 get_upscaler_service [137, 80] (Some 1) True 60 up_world0)
   \<and> UpscaleResult.upscaled_size (upscale lib0 get_upscaler_service [137, 80] (Some 4) True 60 up_world0)
       = (8, 4)
   \<and> core_UpscaleResult.upscaled_size (Masq_upscale lib0 [137, 80] 4 True up_world0) = (8, 4)"
proof -
  have r1: "resize_LANCZOS lib0 img_rgba (img_size img_rgba) = Inr img_rgba"
    by (simp add: rgba_lib0)
  have r4: "resize_LANCZOS lib0 img_rgba (4 * fst (img_size img_rgba), 4 * snd (img_size img_rgba))
      = Inr (img_rgba\<lparr>img_size := (8, 4)\<rparr>)"
    by (simp add: rgba_lib0)
  note inst = rgba_dimensions [where lib = lib0 and b = "[137, 80]" and img = img_rgba
      and out = img_rgba and ?out4.0 = "img_rgba\<lparr>img_size := (8, 4)\<rparr>" and tmo = 60
      and w = up_world0]
  show ?thesis
    using inst rgba_lib0(1,2,6) r1 r4 by (simp add: rgba_lib0(3))
qed

subsection \<open>Alpha that is not preserved\<close>

lemma composite_mode:
  "mode (composite_on_white lib img) = ''RGB''"
  "img_size (composite_on_white lib img) = img_size img"
  by (simp_all add: composite_on_white_def paste_def Image_new_def)

lemma composite_pixel:
  assumes "i < length (pixels img)" "i < nat (fst (img_size img) * snd (img_size img))"
  shows "i < length (pixels (composite_on_white lib img))"
    and "pixels (composite_on_white lib img) ! i
         = paste_pixel lib [255, 255, 255] (pixels img ! i)
             (case pixels img ! i of [r, g, b, a] \<Rightarrow> a | _ \<Rightarrow> 255)"
  using assms by (simp_all add: composite_on_white_def paste_def Image_new_def split3_def)

lemma upscale_sync_rgba_drop:
  "Image_open lib b = Inr img \<Longrightarrow> mode img = ''RGBA'' \<Longrightarrow>
   upscale_sync lib b sc False
     = (case resize_LANCZOS lib (composite_on_white lib img)
               (fst (img_size img) * sc, snd (img_size img) * sc) of
          Inl e \<Rightarrow> Inl e
        | Inr out \<Rightarrow> Inr (save_PNG lib out, img_size img,
                          (fst (img_size img) * sc, snd (img_size img) * sc), False))"
  by (simp add: upscale_sync_def Let_def)

lemma core_process_rgba_drop:
  "Image_open lib b = Inr img \<Longrightarrow> mode img = ''RGBA'' \<Longrightarrow>
   core_process lib b sc False
     = (case resize_LANCZOS lib (composite_on_white lib img)
               (fst (img_size img) * sc, snd (img_size img) * sc) of
          Inl e \<Rightarrow> Inl e
        | Inr out \<Rightarrow> Inr (save_PNG lib out, img_size img,
                          (fst (img_size img) * sc, snd (img_size img) * sc), False))"
  by (simp add: core_process_def Let_def)

lemma upscale_sync_no_alpha:
  "upscale_sync lib b sc False = Inr (bs, orig, new, alpha) \<Longrightarrow> \<not> alpha"
  by (auto simp: upscale_sync_def Let_def split: sum.splits if_splits)

lemma core_process_no_alpha:
  "core_process lib b sc False = Inr (bs, orig, new, alpha) \<Longrightarrow> \<not> alpha"
  by (auto simp: core_process_def Let_def split: sum.splits if_splits)

lemma upscale_no_alpha:
  "\<not> UpscaleResult.has_alpha (upscale lib self b scale False tmo w)"
  by (auto simp: upscale_def Let_def UpscaleResult_init_def dest: upscale_sync_no_alpha
        split: sum.splits exn.splits prod.splits if_splits)

lemma Masq_upscale_no_alpha:
  "\<not> core_UpscaleResult.has_alpha (Masq_upscale lib b sc False w)"
  by (auto simp: Masq_upscale_def Let_def core_UpscaleResult_init_def dest: core_process_no_alpha
        split: sum.splits exn.splits prod.splits if_splits)

text \<open>
  C7, as the code has it. For an image that decodes to mode \<open>RGBA\<close> and with alpha not
  preserved, the engine
  first pastes the image onto a white \<open>RGB\<close> image of the same size with the alpha band
  as mask, and hands that composite to the resize; what it returns has \<open>has_alpha\<close> false.
  The composite has mode \<open>RGB\<close>; a fully transparent source pixel is white in it, the
  image that is resized, and a fully opaque one keeps its colour there. The results of \<open>upscale\<close> and \<open>Masq.upscale\<close> without
  preserved alpha never report an alpha channel.
\<close>

theorem alpha_composited_before_resize:
  "(Image_open lib b = Inr img \<and> mode img = ''RGBA'' \<longrightarrow>
      upscale_sync lib b sc False
        = (case resize_LANCZOS lib (composite_on_white lib img)
                  (fst (img_size img) * sc, snd (img_size img) * sc) of
             Inl e \<Rightarrow> Inl e
           | Inr out \<Rightarrow> Inr (save_PNG lib out, img_size img,
                             (fst (img_size img) * sc, snd (img_size img) * sc), False))
    \<and> core_process lib b sc False
        = (case resize_LANCZOS lib (composite_on_white lib img)
                  (fst (img_size img) * sc, snd (img_size img) * sc) of
             Inl e \<Rightarrow> Inl e
           | Inr out \<Rightarrow> Inr (save_PNG lib out, img_size img,
                             (fst (img_size img) * sc, snd (img_size img) * sc), False)))
   \<and> \<not> UpscaleResult.has_alpha (upscale lib self b scale False tmo w)
   \<and> \<not> core_UpscaleResult.has_alpha (Masq_upscale lib b sc False w)
   \<and> mode (composite_on_white lib img) = ''RGB''
   \<and> img_size (composite_on_white lib img) = img_size img
   \<and> (i < length (pixels img) \<and> i < nat (fst (img_size img) * snd (img_size img))
        \<and> pixels img ! i = [r, g, bl, 0] \<longrightarrow>
      i < length (pixels (composite_on_white lib img))
        \<and> pixels (composite_on_white lib img) ! i = [255, 255, 255])
   \<and> (i < length (pixels img) \<and> i < nat (fst (img_size img) * snd (img_size img))
        \<and> pixels img ! i = [r, g, bl, 255] \<longrightarrow>
      i < length (pixels (composite_on_white lib img))
        \<and> pixels (composite_on_white lib img) ! i = [r, g, bl])"
proof -
  have transparent: "i < length (pixels img) \<and> i < nat (fst (img_size img) * snd (img_size img))
        \<and> pixels img ! i = [r, g, bl, 0] \<longrightarrow>
      i < length (pixels (composite_on_white lib img))
        \<and> pixels (composite_on_white lib img) ! i = [255, 255, 255]"
    using composite_pixel [of i img lib] by (simp add: paste_pixel_def)
  have opaque: "i < length (pixels img) \<and> i < nat (fst (img_size img) * snd (img_size img))
        \<and> pixels img ! i = [r, g, bl, 255] \<longrightarrow>
      i < length (pixels (composite_on_white lib img))
        \<and> pixels (composite_on_white lib img) ! i = [r, g, bl]"
    using composite_pixel [of i img lib] by (simp add: paste_pixel_def)
  show ?thesis
    using transparent opaque upscale_sync_rgba_drop [of lib b img sc]
      core_process_rgba_drop [of lib b img sc] upscale_no_alpha [of lib self b scale tmo w]
      Masq_upscale_no_alpha [of lib b sc w] composite_mode [of lib img]
    by blast
qed

text \<open>
  The image of two pixels, the first fully transparent: the composite is white there and
  keeps the second pixel, and at scale 2 the engine returns the sizes (2, 1) and (4, 2)
  without alpha.
\<close>

theorem alpha_composited_before_resize_witness:
  "pixels img_rgba ! 0 = [10, 20, 30, 0]
   \<and> pixels (composite_on_white lib0 img_rgba) ! 0 = [255, 255, 255]
   \<and> pixels (composite_on_white lib0 img_rgba) = [[255, 255, 255], [40, 50, 60]]
   \<and> upscale_sync lib0 [137, 80] 2 False = Inr ([137, 80, 78, 71], (2, 1), (4, 2), False)"
proof -
  have px: "pixels img_rgba ! 0 = [10, 20, 30, 0]" "0 < length (pixels img_rgba)"
    "0 < nat (fst (img_size img_rgba) * snd (img_size img_rgba))"
    by (simp_all add: img_rgba_def)
  have all: "pixels (composite_on_white lib0 img_rgba) = [[255, 255, 255], [40, 50, 60]]"
    by (simp add: composite_on_white_def paste_def Image_new_def split3_def img_rgba_def
          paste_pixel_def numeral_2_eq_2)
  have rs: "resize_LANCZOS lib0 (composite_on_white lib0 img_rgba) (4, 2)
      = Inr ((composite_on_white lib0 img_rgba)\<lparr>img_size := (4, 2)\<rparr>)"
    by (simp add: lib0_def)
  note inst = alpha_composited_before_resize [where lib = lib0 and b = "[137, 80]"
      and img = img_rgba and sc = 2 and i = 0 and r = 10 and g = 20 and bl = 30]
  from inst px have "pixels (composite_on_white lib0 img_rgba) ! 0 = [255, 255, 255]"
    by blast
  moreover from inst rgba_lib0(1,2)
  have "upscale_sync lib0 [137, 80] 2 False
        = (case resize_LANCZOS lib0 (composite_on_white lib0 img_rgba)
                  (fst (img_size img_rgba) * 2, snd (img_size img_rgba) * 2) of
             Inl e \<Rightarrow> Inl e
           | Inr out \<Rightarrow> Inr (save_PNG lib0 out, img_size img_rgba,
                             (fst (img_size img_rgba) * 2, snd (img_size img_rgba) * 2), False))"
    by blast
  then have "upscale_sync lib0 [137, 80] 2 False = Inr ([137, 80, 78, 71], (2, 1), (4, 2), False)"
    by (simp add: rgba_lib0(3) rs) (simp add: lib0_def)
  ultimately show ?thesis
    using px(1) all by simp
qed

lemma lanczos_row_white_dark:
  "lanczos_row_2_to_4 [255, 255, 255] [40, 50, 60]
     = [[255, 255, 255], [205, 207, 210], [90, 98, 105], [2, 14, 26]]"
  by (simp add: lanczos_row_2_to_4_def lanczos_2_to_4_def resample_band_def clip8_def)

lemma composite_rgba:
  "composite_on_white lib_lanczos img_rgba
     = \<lparr>mode = ''RGB'', img_size = (2, 1), pixels = [[255, 255, 255], [40, 50, 60]]\<rparr>"
  by (simp add: composite_on_white_def paste_def Image_new_def split3_def img_rgba_def
        paste_pixel_def numeral_2_eq_2)

lemma resize_composite:
  "resize_LANCZOS lib_lanczos (composite_on_white lib_lanczos img_rgba) (4, 2)
     = Inr \<lparr>mode = ''RGB'', img_size = (4, 2),
            pixels = [[255, 255, 255], [205, 207, 210], [90, 98, 105], [2, 14, 26],
                      [255, 255, 255], [205, 207, 210], [90, 98, 105], [2, 14, 26]]\<rparr>"
  by (simp add: composite_rgba) (simp add: lib_lanczos_def lanczos_row_white_dark)

text \<open>
  C7 as stated fails for the output pixel. The image of 2 by 1 pixels has a fully
  transparent first pixel and an opaque dark second one, and is resized by 2 without
  its alpha. The composite is white at the first pixel; Pillow's Lanczos filter mixes the
  two pixels of the composite, and the second output column, which lies under the
  transparent source pixel, is (205, 207, 210) and not white.
\<close>

theorem transparent_pixel_is_not_white_after_resize:
  "Image_open lib_lanczos [137, 80] = Inr img_rgba
   \<and> mode img_rgba = ''RGBA''
   \<and> img_size img_rgba = (2, 1)
   \<and> pixels img_rgba ! 0 = [10, 20, 30, 0]
   \<and> pixels (composite_on_white lib_lanczos img_rgba) ! 0 = [255, 255, 255]
   \<and> resize_LANCZOS lib_lanczos (composite_on_white lib_lanczos img_rgba) (4, 2)
       = Inr \<lparr>mode = ''RGB'', img_size = (4, 2),
              pixels = [[255, 255, 255], [205, 207, 210], [90, 98, 105], [2, 14, 26],
                        [255, 255, 255], [205, 207, 210], [90, 98, 105], [2, 14, 26]]\<rparr>
   \<and> upscale_sync lib_lanczos [137, 80] 2 False
       = Inr ([255, 255, 255, 205, 207, 210, 90, 98, 105, 2, 14, 26,
               255, 255, 255, 205, 207, 210, 90, 98, 105, 2, 14, 26], (2, 1), (4, 2), False)
   \<and> core_process lib_lanczos [137, 80] 2 False
       = Inr ([255, 255, 255, 205, 207, 210, 90, 98, 105, 2, 14, 26,
               255, 255, 255, 205, 207, 210, 90, 98, 105, 2, 14, 26], (2, 1), (4, 2), False)"
proof -
  have op: "Image_open lib_lanczos [137, 80] = Inr img_rgba"
    by (simp add: lib_lanczos_def lib0_def)
  have im: "mode img_rgba = ''RGBA''" "img_size img_rgba = (2, 1)"
    "pixels img_rgba ! 0 = [10, 20, 30, 0]"
    by (simp_all add: img_rgba_def)
  have sv: "save_PNG lib_lanczos
               \<lparr>mode = ''RGB'', img_size = (4, 2),
                pixels = [[255, 255, 255], [205, 207, 210], [90, 98, 105], [2, 14, 26],
                          [255, 255, 255], [205, 207, 210], [90, 98, 105], [2, 14, 26]]\<rparr>
            = [255, 255, 255, 205, 207, 210, 90, 98, 105, 2, 14, 26,
               255, 255, 255, 205, 207, 210, 90, 98, 105, 2, 14, 26]"
    by (simp add: lib_lanczos_def)
  have a: "upscale_sync lib_lanczos [137, 80] 2 False
       = Inr ([255, 255, 255, 205, 207, 210, 90, 98, 105, 2, 14, 26,
               255, 255, 255, 205, 207, 210, 90, 98, 105, 2, 14, 26], (2, 1), (4, 2), False)"
    by (simp add: upscale_sync_def Let_def op im resize_composite sv)
  have b: "core_process lib_lanczos [137, 80] 2 False
       = Inr ([255, 255, 255, 205, 207, 210, 90, 98, 105, 2, 14, 26,
               255, 255, 255, 205, 207, 210, 90, 98, 105, 2, 14, 26], (2, 1), (4, 2), False)"
    by (simp add: core_process_def Let_def op im resize_composite sv)
  have c: "pixels (composite_on_white lib_lanczos img_rgba) ! 0 = [255, 255, 255]"
    by (simp add: composite_rgba)
  from op im c resize_composite a b show ?thesis by (intro conjI)
qed


subsection \<open>Presenting the successful outcomes\<close>

lemma present_spec_mset: "mset (present_spec prio P rs) = mset [r \<leftarrow> rs. P r]"
  by (simp add: present_spec_def)

lemma present_spec_sorted_input:
  "sorted (map prio rs) \<Longrightarrow> present_spec prio P rs = [r \<leftarrow> rs. P r]"
  unfolding present_spec_def
  by (rule sort_key_id_if_sorted) (rule sorted_filter)

text \<open>
  C8, as the code has it. The list offered for selection is exactly the successful
  outcomes in the order in which they stand in the results list: no sort by priority is
  applied. It holds the same outcomes as the list the specification asks for, and is that
  list whenever the results already stand in ascending priority. The buttons of the view
  follow the same order.
\<close>

theorem present_keeps_results_order:
  "successful csr
     = [m \<leftarrow> core_ShotgunResult.results csr.
          ModelResult.status m = ModelStatus.SUCCESS \<and> ModelResult.image_bytes m \<noteq> None]
   \<and> mset (successful csr)
     = mset (present_spec prio ModelResult_is_success (core_ShotgunResult.results csr))
   \<and> (sorted (map prio (core_ShotgunResult.results csr)) \<longrightarrow>
        successful csr = present_spec prio ModelResult_is_success (core_ShotgunResult.results csr))
   \<and> successful_results sr
     = [r \<leftarrow> ShotgunResult.results sr.
          ProviderResult.status r = ProviderStatus.SUCCESS \<and> ProviderResult.image_base64 r \<noteq> None]
   \<and> mset (successful_results sr)
     = mset (present_spec prio' ProviderResult_is_success (ShotgunResult.results sr))
   \<and> (sorted (map prio' (ShotgunResult.results sr)) \<longrightarrow>
        successful_results sr
          = present_spec prio' ProviderResult_is_success (ShotgunResult.results sr))
   \<and> map custom_id (children (ModelSelectView_init (successful csr) uid))
     = map (\<lambda>m. ''select_'' @ ModelResult.model_id m) (successful csr)"
proof -
  have p: "ProviderResult_is_success = (\<lambda>r. ProviderResult.status r = ProviderStatus.SUCCESS
             \<and> ProviderResult.image_base64 r \<noteq> None)"
    by (rule ext) (simp add: ProviderResult_is_success_def)
  have q: "ModelResult_is_success = (\<lambda>m. ModelResult.status m = ModelStatus.SUCCESS
             \<and> ModelResult.image_bytes m \<noteq> None)"
    by (rule ext) (simp add: ModelResult_is_success_def)
  have a: "successful csr
     = [m \<leftarrow> core_ShotgunResult.results csr.
          ModelResult.status m = ModelStatus.SUCCESS \<and> ModelResult.image_bytes m \<noteq> None]"
    by (simp add: successful_def q)
  have b: "successful_results sr
     = [r \<leftarrow> ShotgunResult.results sr.
          ProviderResult.status r = ProviderStatus.SUCCESS \<and> ProviderResult.image_base64 r \<noteq> None]"
    by (simp add: successful_results_def p)
  have c: "mset (successful csr)
     = mset (present_spec prio ModelResult_is_success (core_ShotgunResult.results csr))"
    by (simp only: present_spec_mset successful_def)
  have d: "mset (successful_results sr)
     = mset (present_spec prio' ProviderResult_is_success (ShotgunResult.results sr))"
    by (simp only: present_spec_mset successful_results_def)
  have e: "sorted (map prio (core_ShotgunResult.results csr)) \<longrightarrow>
        successful csr = present_spec prio ModelResult_is_success (core_ShotgunResult.results csr)"
    by (simp add: present_spec_sorted_input successful_def)
  have f: "sorted (map prio' (ShotgunResult.results sr)) \<longrightarrow>
        successful_results sr
          = present_spec prio' ProviderResult_is_success (ShotgunResult.results sr)"
    by (simp add: present_spec_sorted_input successful_results_def)
  have g: "map custom_id (children (ModelSelectView_init (successful csr) uid))
     = map (\<lambda>m. ''select_'' @ ModelResult.model_id m) (successful csr)"
    by (simp add: ModelSelectView_init_def add_buttons_custom_ids successful_def)
  from a c e b d f g show ?thesis by (intro conjI)
qed

lemma two_results:
  "ModelResult_is_success res_isnet" "ModelResult_is_success res_rmbg2"
  "\<not> ModelResult_is_success res_kie_failed"
  "model_priority res_isnet = 5" "model_priority res_rmbg2 = 1"
  "model_priority res_kie_failed = 3"
  by (simp_all add: ModelResult_is_success_def res_isnet_def res_rmbg2_def res_kie_failed_def
        ModelResult_init_def model_priority_def MODELS_def)

text \<open>
  C8 as stated fails. The results hold the successful outcome of ISNet (priority 5) before
  the one of RMBG 2.0 (priority 1), as they do when the local model is requested first or
  its task is met first in the set of finished tasks: the list offered is in that order,
  and the list sorted by priority is the other way round.
\<close>

theorem present_is_not_sorted_by_priority:
  "successful \<lparr>core_ShotgunResult.results = [res_isnet, res_rmbg2], total_time_ms = 1500,
               timestamp = 0\<rparr> = [res_isnet, res_rmbg2]
   \<and> map model_priority [res_isnet, res_rmbg2] = [5, 1]
   \<and> present_spec model_priority ModelResult_is_success [res_isnet, res_rmbg2]
       = [res_rmbg2, res_isnet]
   \<and> res_isnet \<noteq> res_rmbg2
   \<and> map label (children (ModelSelectView_init [res_isnet, res_rmbg2] 7))
       = [''1. ISNet'', ''2. RMBG 2.0'']"
proof -
  have ne: "res_isnet \<noteq> res_rmbg2"
    by (simp add: res_isnet_def res_rmbg2_def ModelResult_init_def)
  have s1: "str_nat (Suc 0) = ''1''" "str_nat (Suc (Suc 0)) = ''2''"
    by (simp_all add: str_nat.simps)
  have lab: "map label (children (ModelSelectView_init [res_isnet, res_rmbg2] 7))
       = [''1. ISNet'', ''2. RMBG 2.0'']"
    by (simp add: ModelSelectView_init_def two_results s1)
       (simp add: res_isnet_def res_rmbg2_def ModelResult_init_def)
  show ?thesis
    using ne lab by (simp add: successful_def present_spec_def two_results)
qed

text \<open>
  With the failed Kie outcome between two successful ones that stand in ascending
  priority, the list offered is the two successful outcomes, which is the order the
  specification asks for.
\<close>

theorem present_keeps_results_order_witness:
  "sorted (map model_priority [res_rmbg2, res_kie_failed, res_isnet])
   \<and> successful \<lparr>core_ShotgunResult.results = [res_rmbg2, res_kie_failed, res_isnet],
                 total_time_ms = 1500, timestamp = 0\<rparr>
       = present_spec model_priority ModelResult_is_success [res_rmbg2, res_kie_failed, res_isnet]
   \<and> successful \<lparr>core_ShotgunResult.results = [res_rmbg2, res_kie_failed, res_isnet],
                 total_time_ms = 1500, timestamp = 0\<rparr>
       = [res_rmbg2, res_isnet]"
proof -
  let ?csr = "\<lparr>core_ShotgunResult.results = [res_rmbg2, res_kie_failed, res_isnet],
               total_time_ms = 1500, timestamp = 0\<rparr>"
  have srt: "sorted (map model_priority [res_rmbg2, res_kie_failed, res_isnet])"
    by (simp add: two_results)
  then have srt': "sorted (map model_priority (core_ShotgunResult.results ?csr))"
    by simp
  note inst = present_keeps_results_order [where prio = model_priority and csr = ?csr]
  from inst srt'
  have eq: "successful ?csr
      = present_spec model_priority ModelResult_is_success (core_ShotgunResult.results ?csr)"
    by blast
  have "present_spec model_priority ModelResult_is_success [res_rmbg2, res_kie_failed, res_isnet]
      = [res_rmbg2, res_isnet]"
    by (simp add: present_spec_def two_results)
  with eq srt show ?thesis by simp
qed


subsection \<open>Recording a selection\<close>

lemma callback_owner:
  "u = user_id v \<Longrightarrow>
   selected_model (fst (callback mid v u)) = Some mid
   \<and> list_all disabled (children (fst (callback mid v u)))
   \<and> length (children (fst (callback mid v u))) = length (children v)
   \<and> stopped (fst (callback mid v u))"
  by (simp add: callback_def Let_def list_all_iff)

lemma callback_other:
  "u \<noteq> user_id v \<Longrightarrow>
   fst (callback mid v u) = v
   \<and> snd (callback mid v u) = send_message ''This isn't your result set.'' True"
  by (simp add: callback_def)

text \<open>
  C9, as the code has it. Recording a selection never fails: \<open>log_selection\<close> answers
  \<open>logged\<close> with the model id and the job id it was given, whatever they are, and keeps
  nothing. In the chat view a button exists for each successful outcome and for no other,
  and no model is selected at first; a click of the owning user records the model of the
  button, disables every button and stops the view; a click of any other user is answered
  with a refusal and changes nothing.
\<close>

theorem selection_is_logged_unchecked:
  "log_selection mid job notes = \<lparr>sel_status = ''logged'', sel_model_id = mid, sel_job_id = job\<rparr>
   \<and> map custom_id (children (ModelSelectView_init rs uid))
     = map (\<lambda>m. ''select_'' @ ModelResult.model_id m) [m \<leftarrow> rs. ModelResult_is_success m]
   \<and> selected_model (ModelSelectView_init rs uid) = None
   \<and> (u = user_id v \<longrightarrow>
        selected_model (fst (callback mid v u)) = Some mid
      \<and> list_all disabled (children (fst (callback mid v u)))
      \<and> length (children (fst (callback mid v u))) = length (children v)
      \<and> stopped (fst (callback mid v u)))
   \<and> (u \<noteq> user_id v \<longrightarrow>
        fst (callback mid v u) = v
      \<and> snd (callback mid v u) = send_message ''This isn't your result set.'' True)"
proof -
  have a: "log_selection mid job notes
      = \<lparr>sel_status = ''logged'', sel_model_id = mid, sel_job_id = job\<rparr>"
    by (simp add: log_selection_def)
  have b: "map custom_id (children (ModelSelectView_init rs uid))
     = map (\<lambda>m. ''select_'' @ ModelResult.model_id m) [m \<leftarrow> rs. ModelResult_is_success m]"
    by (simp add: ModelSelectView_init_def add_buttons_custom_ids)
  have c: "selected_model (ModelSelectView_init rs uid) = None"
    by (simp add: ModelSelectView_init_def)
  from a b c callback_owner [of u v mid] callback_other [of u v mid]
  show ?thesis by blast
qed

text \<open>
  C9 as stated fails. The job \<open>job1\<close> has one successful outcome, of \<open>runware_rmbg2\<close>.
  A selection of \<open>local_isnet\<close> is one the specification rejects, and after a selection
  of \<open>runware_rmbg2\<close> a second one for the same job is one it rejects as well;
  \<open>log_selection\<close> answers \<open>logged\<close> to both.
\<close>

theorem selection_is_never_rejected:
  "record_spec (\<lambda>j. [''runware_rmbg2'']) Map.empty ''job1'' ''local_isnet''
     = Inl InvalidSelection
   \<and> sel_status (log_selection ''local_isnet'' (Some ''job1'') None) = ''logged''
   \<and> record_spec (\<lambda>j. [''runware_rmbg2'', ''local_isnet''])
        (Map.empty(''job1'' \<mapsto> ''runware_rmbg2'')) ''job1'' ''local_isnet''
     = Inl InvalidSelection
   \<and> log_selection ''local_isnet'' (Some ''job1'') (Some ''second pick'')
     = \<lparr>sel_status = ''logged'', sel_model_id = ''local_isnet'', sel_job_id = Some ''job1''\<rparr>"
  by (simp add: record_spec_def log_selection_def)

text \<open>
  The view over a failed and a successful outcome has the one button of the successful
  one; the owner (user 7) selects it, another user (user 8) is refused.
\<close>

theorem selection_is_logged_unchecked_witness:
  "map custom_id (children (ModelSelectView_init [res_kie_failed, res_isnet] 7))
     = [''select_local_isnet'']
   \<and> user_id (ModelSelectView_init [res_kie_failed, res_isnet] 7) = 7
   \<and> selected_model
       (fst (callback ''local_isnet'' (ModelSelectView_init [res_kie_failed, res_isnet] 7) 7))
     = Some ''local_isnet''
   \<and> list_all disabled
       (children (fst (callback ''local_isnet'' (ModelSelectView_init [res_kie_failed, res_isnet] 7) 7)))
   \<and> fst (callback ''local_isnet'' (ModelSelectView_init [res_kie_failed, res_isnet] 7) 8)
     = ModelSelectView_init [res_kie_failed, res_isnet] 7"
proof -
  let ?v = "ModelSelectView_init [res_kie_failed, res_isnet] 7"
  have uid: "user_id ?v = 7" "8 \<noteq> user_id ?v" "7 = user_id ?v"
    by (simp_all add: ModelSelectView_init_def)
  have ids: "map (\<lambda>m. ''select_'' @ ModelResult.model_id m)
               [m \<leftarrow> [res_kie_failed, res_isnet]. ModelResult_is_success m]
             = [''select_local_isnet'']"
    by (simp add: two_results) (simp add: res_isnet_def ModelResult_init_def)
  note own = selection_is_logged_unchecked [where rs = "[res_kie_failed, res_isnet]"
      and uid = 7 and u = 7 and v = ?v and mid = "''local_isnet''"]
  note other = selection_is_logged_unchecked [where u = 8 and v = ?v and mid = "''local_isnet''"]
  from own have "map custom_id (children ?v)
      = map (\<lambda>m. ''select_'' @ ModelResult.model_id m)
          [m \<leftarrow> [res_kie_failed, res_isnet]. ModelResult_is_success m]"
    by blast
  with ids have a: "map custom_id (children ?v) = [''select_local_isnet'']"
    by simp
  from own uid(3) have b: "selected_model (fst (callback ''local_isnet'' ?v 7)) = Some ''local_isnet''
      \<and> list_all disabled (children (fst (callback ''local_isnet'' ?v 7)))"
    by blast
  from other uid(2) have c: "fst (callback ''local_isnet'' ?v 8) = ?v"
    by blast
  from a b c uid(1) show ?thesis by blast
qed

subsection \<open>Instances of the counting theorems\<close>

text \<open>
  Three outcomes are added: a success, a timeout, and a success without payload. One is
  counted as successful and two as failed.
\<close>

theorem counts_sum_to_length_witness:
  "successful_count (foldl add_result ShotgunResult_init
       [RunwareProvider_remove_background bp_rmbg2 ''rw-key'' io_ok,
        RunwareProvider_remove_background bp_rmbg2 ''rw-key'' io_timeout, res_no_payload])
     + failed_count (foldl add_result ShotgunResult_init
       [RunwareProvider_remove_background bp_rmbg2 ''rw-key'' io_ok,
        RunwareProvider_remove_background bp_rmbg2 ''rw-key'' io_timeout, res_no_payload])
   = 3
   \<and> successful_count (execute svc0 None world_one_fails)
     + failed_count (execute svc0 None world_one_fails)
     = int (length (ShotgunResult.results (execute svc0 None world_one_fails)))"
proof -
  let ?rs = "[RunwareProvider_remove_background bp_rmbg2 ''rw-key'' io_ok,
        RunwareProvider_remove_background bp_rmbg2 ''rw-key'' io_timeout, res_no_payload]"
  have len: "length (ShotgunResult.results (foldl add_result ShotgunResult_init ?rs)) = 3"
    by (simp only: foldl_add_result_results) (simp add: ShotgunResult_init_def)
  note inst = counts_sum_to_length [where rs = ?rs and self = svc0 and models = None
      and world = world_one_fails]
  from inst have "successful_count (foldl add_result ShotgunResult_init ?rs)
      + failed_count (foldl add_result ShotgunResult_init ?rs)
      = int (length (ShotgunResult.results (foldl add_result ShotgunResult_init ?rs)))"
    by blast
  with len have a: "successful_count (foldl add_result ShotgunResult_init ?rs)
      + failed_count (foldl add_result ShotgunResult_init ?rs) = 3"
    by simp
  from inst have b: "successful_count (execute svc0 None world_one_fails)
     + failed_count (execute svc0 None world_one_fails)
     = int (length (ShotgunResult.results (execute svc0 None world_one_fails)))"
    by blast
  from a b show ?thesis by blast
qed

text \<open>
  An outcome with status \<open>SUCCESS\<close> and no image is not successful: added to a fresh
  container it is counted as failed.
\<close>

theorem success_needs_payload_witness:
  "ProviderResult.status res_no_payload = ProviderStatus.SUCCESS
   \<and> ProviderResult.image_base64 res_no_payload = None
   \<and> \<not> ProviderResult_is_success res_no_payload
   \<and> failed_count (add_result ShotgunResult_init res_no_payload) = 1
   \<and> successful_count (add_result ShotgunResult_init res_no_payload) = 0"
proof -
  have h: "ProviderResult.status res_no_payload = ProviderStatus.SUCCESS"
    "ProviderResult.image_base64 res_no_payload = None"
    by (simp_all add: res_no_payload_def ProviderResult_init_def)
  note inst = success_needs_payload [where r = res_no_payload and s = ShotgunResult_init]
  from inst h have "\<not> ProviderResult_is_success res_no_payload"
    by blast
  moreover from inst h
  have "failed_count (add_result ShotgunResult_init res_no_payload)
          = failed_count ShotgunResult_init + 1
      \<and> successful_count (add_result ShotgunResult_init res_no_payload)
          = successful_count ShotgunResult_init"
    by blast
  ultimately show ?thesis
    using h by (simp add: ShotgunResult_init_def)
qed

end
